theory Spec2Isabelle
  imports Complex_Main "HOL-Library.Word"
begin

section \<open>Machine types of the reporter\<close>

text \<open>
  Go's \<open>int64\<close>, \<open>uint32\<close> and \<open>uint64\<close> are words of that width: \<open>*\<close> and \<open>+\<close>
  wrap around, as Go's integer arithmetic does. Go's \<open>int\<close> as read from the runtime
  (\<open>runtime.NumCPU\<close>, \<open>runtime.NumGoroutine\<close>, an HTTP status code) is an \<open>int\<close>; the
  configured interval, a Go integer that \<open>time.Duration(...)\<close> converts to 64 bits, is
  the 64-bit value the conversion yields.

  \<open>float64\<close> is idealised as \<open>real\<close>: rounding, infinities and NaN are not modelled.
  A division by zero, which Go evaluates to an infinity or NaN, is 0 in HOL; a theorem
  that depends on a quotient states that its divisor is not zero.

  An instant (\<open>time.Time\<close>) is a number of nanoseconds on one time line, a
  \<open>time.Duration\<close> is an \<open>int64\<close> number of nanoseconds.
\<close>

type_synonym int64 = "64 word"
type_synonym uint32 = "32 word"
type_synonym uint64 = "64 word"
type_synonym float64 = real
type_synonym Time = int
type_synonym Duration = int64

definition Second :: Duration where
  "Second = 1000000000"

definition Minute :: Duration where
  "Minute = 60 * Second"

text \<open>The conversions \<open>float64(x)\<close> of the source, by the type of \<open>x\<close>.\<close>

definition float64_of_int64 :: "int64 \<Rightarrow> float64" where
  "float64_of_int64 x = real_of_int (sint x)"

definition float64_of_uint64 :: "uint64 \<Rightarrow> float64" where
  "float64_of_uint64 x = real (unat x)"

definition float64_of_int :: "int \<Rightarrow> float64" where
  "float64_of_int x = real_of_int x"

text \<open>
  The zero value of \<open>time.Time\<close> is January 1 of year 1, 62135596800 seconds before
  the Unix epoch, the origin of the time line here.
\<close>

definition zero_Time :: Time where
  "zero_Time = - 62135596800000000000"

text \<open>
  \<open>time.Since(t)\<close> at the instant \<open>now\<close>: the difference, which the library saturates
  to the range of \<open>int64\<close>.
\<close>

definition Since :: "Time \<Rightarrow> Time \<Rightarrow> Duration" where
  "Since now t =
     (if now - t < - (2 ^ 63) then word_of_int (- (2 ^ 63))
      else if 2 ^ 63 - 1 < now - t then word_of_int (2 ^ 63 - 1)
      else word_of_int (now - t))"

text \<open>\<open>Duration.Seconds()\<close>: whole seconds plus the remaining nanoseconds over \<open>1e9\<close>.\<close>

definition Seconds :: "Duration \<Rightarrow> float64" where
  "Seconds d = real_of_int (sint d) / 1000000000"

section \<open>Data model\<close>

record SystemStats =
  CPUUsage :: float64
  MemoryUsage :: float64
  CPUCount :: int
  MemoryUsageMB :: float64
  MemoryTotalMB :: float64
  GoroutineCount :: int
  GCCount :: uint32
  GCPauseMs :: float64

text \<open>
  The three fields that the anonymous struct \<open>ReportData.TotalStats\<close> and the struct
  \<open>SourceStats\<close> have in common are one base record, which each of them extends with
  its fourth field, so that both keep the field names of the source. \<open>SourceStats\<close> is
  declared outside \<open>reporter.go\<close>; its fields are those that \<open>generateReport\<close> reads
  and writes, and \<open>BytesSent\<close> and \<open>PacketsSent\<close> go through the same \<open>formatBytes\<close>
  and \<open>formatNumber\<close> as the \<open>int64\<close> totals.
\<close>

record TrafficStats =
  BytesSent :: int64
  PacketsSent :: int64
  BandwidthMbps :: float64

record TotalStats = TrafficStats +
  UptimeSeconds :: float64

record SourceStats = TrafficStats +
  LastActive :: Time

text \<open>\<open>TargetStats\<close> is owned by the counter store; the reporter passes it on unread.\<close>

typedecl TargetStats

text \<open>
  The counter store \<open>Stats\<close>, as far as the reporter reads it. The entries of
  \<open>sourceIPStats\<close> are the structs that the map's pointers lead to.
\<close>

record Stats =
  bytesSent :: int64
  packetsSent :: int64
  sourceIPStats :: "string \<rightharpoonup> SourceStats"
  targetStats :: "string \<rightharpoonup> TargetStats"

record ReportData =
  Timestamp :: Time
  ManagementIP :: string
  TotalStats :: TotalStats
  SourceIPStats :: "string \<rightharpoonup> SourceStats"
  TargetStats :: "string \<rightharpoonup> TargetStats"
  SystemStats :: SystemStats

text \<open>The configuration struct \<open>Report\<close>: the two fields that \<open>NewReporter\<close> reads.\<close>

record Report =
  Interval :: int64
  URL :: string

text \<open>
  The fields of \<open>Reporter\<close> that hold data. The counter store behind \<open>stats\<close> is an
  argument of each tick, since the sender tasks change it between ticks; the logger,
  the HTTP client, the context and the wait group are the environment.
\<close>

record Reporter =
  interval :: Duration
  startTime :: Time
  reportURL :: string
  managementIP :: string
  lastCPUTime :: Time
  lastCPUStats :: SystemStats

text \<open>What \<open>collectSystemStats\<close> reads from the Go runtime.\<close>

record MemStats =
  Alloc :: uint64
  Sys :: uint64
  NumGC :: uint32
  PauseNs :: "uint64 list"

record Runtime =
  memStats :: MemStats
  NumCPU :: int
  NumGoroutine :: int

section \<open>Effects\<close>

text \<open>
  A call's effects are the list of events it performs, in program order: the lock
  operations on the counter store's \<open>mu\<close> and on the reporter's \<open>cpuCacheMutex\<close>, the
  reading of the runtime statistics, the write to the cache, the serialization, the
  HTTP request and the log lines. A log line is its level and its message with the
  arguments of the format string; \<open>formatBytes\<close> and \<open>formatNumber\<close> are not applied.
\<close>

datatype level = Debug | Info | Warn | Error

datatype logmsg =
    MsgMarshalFailed
  | MsgReportHeader
  | MsgTotals int64 int64 float64 float64
  | MsgSource string int64 float64 int64
  | MsgSystem float64 float64 float64 float64 int uint32
  | MsgSystemOld int float64 float64 int uint32
  | MsgRequestFailed
  | MsgSendFailed
  | MsgSendOK string int
  | MsgSendAbnormal string int

datatype event =
    StatsRLock
  | StatsRUnlock
  | CacheRLock
  | CacheRUnlock
  | CacheLock
  | CacheUnlock
  | CacheWrite Time SystemStats
  | ReadMemStats
  | Marshal
  | HttpPost string
  | Log level logmsg

datatype panic = IndexOutOfRange

text \<open>
  What the environment decides in \<open>sendToRemote\<close>: \<open>http.NewRequestWithContext\<close>
  fails, \<open>httpClient.Do\<close> fails (a transport error, a timeout or a cancelled
  context), or a response arrives with its status code.
\<close>

datatype http_outcome = NewRequestError | DoError | Response int

text \<open>
  What the environment decides during one tick: the four readings of the clock in the
  order of the source (for the uptime, for the age of the cache, for the new cache time
  and for the timestamp), the runtime statistics, whether \<open>json.MarshalIndent\<close>
  succeeds, the outcome of the HTTP request, and the order in which \<open>range\<close> visits the
  keys of the copied map when the log lines are written.
\<close>

record tick_env =
  now_uptime :: Time
  now_cache :: Time
  now_store :: Time
  now_stamp :: Time
  runtime :: Runtime
  marshal_ok :: bool
  http :: http_outcome
  range_order :: "string list"

text \<open>
  \<open>json.MarshalIndent\<close> encodes a \<open>time.Time\<close> through its \<open>MarshalJSON\<close>, which
  returns an error when the year lies outside 0 to 9999; the encoding of the document
  then fails. These are the instants that it accepts.
\<close>

definition json_time_ok :: "Time \<Rightarrow> bool" where
  "json_time_ok t \<longleftrightarrow> - 62167219200000000000 \<le> t \<and> t < 253402300800000000000"

text \<open>
  The environment of a tick agrees with the encoder on the times of the document when
  the encoding succeeds only if it accepts the timestamp and the last-active time of
  every source.
\<close>

definition marshal_faithful :: "Stats \<Rightarrow> tick_env \<Rightarrow> bool" where
  "marshal_faithful st e \<longleftrightarrow>
     (marshal_ok e \<longrightarrow>
        json_time_ok (now_stamp e) \<and>
        (\<forall>ip stats. sourceIPStats st ip = Some stats \<longrightarrow> json_time_ok (LastActive stats)))"

record tick_result =
  reporter :: Reporter
  report :: ReportData
  trace :: "event list"

section \<open>The reporter\<close>

text \<open>\<open>NewReporter\<close>, at the instant \<open>now\<close> that \<open>time.Now()\<close> returns.\<close>

definition NewReporter :: "Report \<Rightarrow> string \<Rightarrow> Time \<Rightarrow> Reporter" where
  "NewReporter config mip now =
     (let interval = Interval config * Second;
          interval = (if interval \<le>s 0 then 10 * Minute else interval)
      in \<lparr>interval = interval,
          startTime = now,
          reportURL = URL config,
          managementIP = mip,
          lastCPUTime = zero_Time,
          lastCPUStats = \<lparr>CPUUsage = 0, MemoryUsage = 0, CPUCount = 0, MemoryUsageMB = 0,
            MemoryTotalMB = 0, GoroutineCount = 0, GCCount = 0, GCPauseMs = 0\<rparr>\<rparr>)"

text \<open>An indexed read of the array \<open>PauseNs\<close>: out of range, Go panics.\<close>

definition index_PauseNs :: "uint64 list \<Rightarrow> nat \<Rightarrow> panic + uint64" where
  "index_PauseNs xs i = (if i < length xs then Inr (xs ! i) else Inl IndexOutOfRange)"

text \<open>
  \<open>collectSystemStats\<close>: \<open>now_check\<close> is the clock when the age of the cache is
  tested, \<open>now_upd\<close> the clock when the cache is written. It returns the sample, the
  reporter with its cache, and the events.
\<close>

definition collectSystemStats ::
  "Reporter \<Rightarrow> Time \<Rightarrow> Time \<Rightarrow> Runtime \<Rightarrow> panic + (SystemStats \<times> Reporter \<times> event list)" where
  "collectSystemStats r now_check now_upd rt =
     (if Since now_check (lastCPUTime r) <s 30 * Second
      then Inr (lastCPUStats r, r, [CacheRLock, CacheRUnlock])
      else
        let ms = memStats rt;
            numCPU = NumCPU rt;
            numGoroutine = NumGoroutine rt;
            cpuUsage = float64_of_int numGoroutine / float64_of_int numCPU * 10;
            cpuUsage = (if cpuUsage > 100 then 100 else cpuUsage);
            cpuUsage = (if cpuUsage < 0 then 0 else cpuUsage);
            memoryUsageMB = float64_of_uint64 (Alloc ms) / 1024 / 1024;
            memoryTotalMB = float64_of_uint64 (Sys ms) / 1024 / 1024;
            memoryUsage = (memoryUsageMB / memoryTotalMB) * 100
        in case (if 0 < NumGC ms
                 then (case index_PauseNs (PauseNs ms) (unat ((NumGC ms + 255) mod 256)) of
                         Inl p \<Rightarrow> Inl p
                       | Inr ns \<Rightarrow> Inr (float64_of_uint64 ns / 1000000))
                 else Inr 0) of
             Inl p \<Rightarrow> Inl p
           | Inr gcPauseMs \<Rightarrow>
               let stats = \<lparr>CPUUsage = cpuUsage,
                            MemoryUsage = memoryUsage,
                            CPUCount = numCPU,
                            MemoryUsageMB = memoryUsageMB,
                            MemoryTotalMB = memoryTotalMB,
                            GoroutineCount = numGoroutine,
                            GCCount = NumGC ms,
                            GCPauseMs = gcPauseMs\<rparr>
               in Inr (stats,
                       r\<lparr>lastCPUTime := now_upd, lastCPUStats := stats\<rparr>,
                       [CacheRLock, CacheRUnlock, ReadMemStats,
                        CacheLock, CacheWrite now_upd stats, CacheUnlock]))"

text \<open>\<open>sendToRemote\<close>: its events, by the outcome of the request.\<close>

definition sendToRemote :: "Reporter \<Rightarrow> http_outcome \<Rightarrow> event list" where
  "sendToRemote r out =
     (case out of
        NewRequestError \<Rightarrow> [Log Error MsgRequestFailed]
      | DoError \<Rightarrow> [HttpPost (reportURL r), Log Error MsgSendFailed]
      | Response code \<Rightarrow>
          [HttpPost (reportURL r),
           if 200 \<le> code \<and> code < 300
           then Log Debug (MsgSendOK (reportURL r) code)
           else Log Warn (MsgSendAbnormal (reportURL r) code)])"

text \<open>
  The second loop of \<open>generateReport\<close>: one log line for each entry of the copied map,
  in the order in which \<open>range\<close> visits the keys.
\<close>

definition source_lines :: "(string \<rightharpoonup> SourceStats) \<Rightarrow> string list \<Rightarrow> event list" where
  "source_lines m ks =
     concat (map (\<lambda>ip. case m ip of
                          None \<Rightarrow> []
                        | Some stats \<Rightarrow>
                            [Log Info (MsgSource ip (BytesSent stats) (BandwidthMbps stats)
                               (PacketsSent stats))]) ks)"

text \<open>
  \<open>generateReport\<close> on the counter store \<open>st\<close>. \<open>StatsRLock\<close> is the first statement
  and the deferred \<open>StatsRUnlock\<close> runs when the function returns, on either path. The
  first loop builds the copy of the per-source map entry by entry.
\<close>

definition generateReport :: "Reporter \<Rightarrow> Stats \<Rightarrow> tick_env \<Rightarrow> panic + tick_result" where
  "generateReport r st e =
     (let uptime = Seconds (Since (now_uptime e) (startTime r));
          totalBandwidth =
            (if uptime > 0 then float64_of_int64 (bytesSent st * 8) / (uptime * 1000000) else 0)
      in case collectSystemStats r (now_cache e) (now_store e) (runtime e) of
           Inl p \<Rightarrow> Inl p
         | Inr (systemStats, r', sys_events) \<Rightarrow>
             let sourceIPStats =
                   (\<lambda>ip. case sourceIPStats st ip of
                            None \<Rightarrow> None
                          | Some stats \<Rightarrow>
                              let ipBandwidth =
                                    (if uptime > 0 \<and> 0 <s BytesSent stats
                                     then float64_of_int64 (BytesSent stats * 8) / (uptime * 1000000)
                                     else 0)
                              in Some \<lparr>BytesSent = BytesSent stats,
                                       PacketsSent = PacketsSent stats,
                                       BandwidthMbps = ipBandwidth,
                                       LastActive = LastActive stats\<rparr>);
                 reportData =
                   \<lparr>Timestamp = now_stamp e,
                    ManagementIP = managementIP r,
                    TotalStats = \<lparr>BytesSent = bytesSent st,
                                  PacketsSent = packetsSent st,
                                  BandwidthMbps = totalBandwidth,
                                  UptimeSeconds = uptime\<rparr>,
                    SourceIPStats = sourceIPStats,
                    TargetStats = targetStats st,
                    SystemStats = systemStats\<rparr>
             in Inr \<lparr>reporter = r',
                     report = reportData,
                     trace =
                       [StatsRLock] @ sys_events @ [Marshal] @
                       (if \<not> marshal_ok e then [Log Error MsgMarshalFailed]
                        else
                          (if reportURL r \<noteq> [] then sendToRemote r (http e) else []) @
                          [Log Info MsgReportHeader,
                           Log Info (MsgTotals (BytesSent (TotalStats reportData))
                             (PacketsSent (TotalStats reportData))
                             (BandwidthMbps (TotalStats reportData))
                             (UptimeSeconds (TotalStats reportData)))] @
                          source_lines sourceIPStats (range_order e) @
                          [Log Info (MsgSystem (CPUUsage systemStats) (MemoryUsage systemStats)
                             (MemoryUsageMB systemStats) (MemoryTotalMB systemStats)
                             (GoroutineCount systemStats) (GCCount systemStats))]) @
                       [StatsRUnlock]\<rparr>)"

text \<open>
  \<open>reportLoop\<close>, run on the cases that its \<open>select\<close> takes one after the other: the
  context is done, or the ticker fires, with the counter store and the environment of
  that tick. It returns the reporter and the events so far, and whether the loop has
  returned; when the cases run out it is waiting in \<open>select\<close>. \<open>Start\<close> and \<open>Stop\<close>,
  which launch the goroutine of the loop and wait for it, have no part in this
  sequential model.
\<close>

datatype select_case = CtxDone | TickerC Stats tick_env

datatype loop_status = Returned | Waiting

fun reportLoop :: "Reporter \<Rightarrow> select_case list \<Rightarrow> panic + (Reporter \<times> event list \<times> loop_status)" where
  "reportLoop r [] = Inr (r, [], Waiting)"
| "reportLoop r (CtxDone # cs) = Inr (r, [], Returned)"
| "reportLoop r (TickerC st e # cs) =
     (case generateReport r st e of
        Inl p \<Rightarrow> Inl p
      | Inr res \<Rightarrow>
          (case reportLoop (reporter res) cs of
             Inl p \<Rightarrow> Inl p
           | Inr (r', evs, status) \<Rightarrow> Inr (r', trace res @ evs, status)))"

section \<open>The earlier version of the reporter\<close>

text \<open>
  The repository holds an earlier version of the same file. Its \<open>Reporter\<close> has no
  management IP and no cache, its \<open>SystemStats\<close> has neither \<open>CPUUsage\<close> nor
  \<open>MemoryUsage\<close>, and its \<open>ReportData\<close> has no \<open>ManagementIP\<close>. Its names carry the
  suffix \<open>_old\<close>.
\<close>

record SystemStats_old =
  CPUCount_old :: int
  MemoryUsageMB_old :: float64
  MemoryTotalMB_old :: float64
  GoroutineCount_old :: int
  GCCount_old :: uint32
  GCPauseMs_old :: float64

record ReportData_old =
  Timestamp_old :: Time
  TotalStats_old :: TotalStats
  SourceIPStats_old :: "string \<rightharpoonup> SourceStats"
  TargetStats_old :: "string \<rightharpoonup> TargetStats"
  SystemStats_old :: SystemStats_old

record Reporter_old =
  interval_old :: Duration
  startTime_old :: Time
  reportURL_old :: string

record tick_result_old =
  report_old :: ReportData_old
  trace_old :: "event list"

definition NewReporter_old :: "Report \<Rightarrow> Time \<Rightarrow> Reporter_old" where
  "NewReporter_old config now =
     (let interval = Interval config * Second;
          interval = (if interval \<le>s 0 then 10 * Minute else interval)
      in \<lparr>interval_old = interval, startTime_old = now, reportURL_old = URL config\<rparr>)"

text \<open>The earlier \<open>collectSystemStats\<close> reads the slot \<open>NumGC % 256\<close>, with no guard.\<close>

definition collectSystemStats_old :: "Runtime \<Rightarrow> panic + SystemStats_old" where
  "collectSystemStats_old rt =
     (let ms = memStats rt
      in case index_PauseNs (PauseNs ms) (unat (NumGC ms mod 256)) of
           Inl p \<Rightarrow> Inl p
         | Inr ns \<Rightarrow>
             Inr \<lparr>CPUCount_old = NumCPU rt,
                  MemoryUsageMB_old = float64_of_uint64 (Alloc ms) / 1024 / 1024,
                  MemoryTotalMB_old = float64_of_uint64 (Sys ms) / 1024 / 1024,
                  GoroutineCount_old = NumGoroutine rt,
                  GCCount_old = NumGC ms,
                  GCPauseMs_old = float64_of_uint64 ns / 1000000\<rparr>)"

definition sendToRemote_old :: "Reporter_old \<Rightarrow> http_outcome \<Rightarrow> event list" where
  "sendToRemote_old r out =
     (case out of
        NewRequestError \<Rightarrow> [Log Error MsgRequestFailed]
      | DoError \<Rightarrow> [HttpPost (reportURL_old r), Log Error MsgSendFailed]
      | Response code \<Rightarrow>
          [HttpPost (reportURL_old r),
           if 200 \<le> code \<and> code < 300
           then Log Debug (MsgSendOK (reportURL_old r) code)
           else Log Warn (MsgSendAbnormal (reportURL_old r) code)])"

definition generateReport_old :: "Reporter_old \<Rightarrow> Stats \<Rightarrow> tick_env \<Rightarrow> panic + tick_result_old" where
  "generateReport_old r st e =
     (let uptime = Seconds (Since (now_uptime e) (startTime_old r));
          totalBandwidth =
            (if uptime > 0 then float64_of_int64 (bytesSent st * 8) / (uptime * 1000000) else 0)
      in case collectSystemStats_old (runtime e) of
           Inl p \<Rightarrow> Inl p
         | Inr systemStats \<Rightarrow>
             let sourceIPStats =
                   (\<lambda>ip. case sourceIPStats st ip of
                            None \<Rightarrow> None
                          | Some stats \<Rightarrow>
                              let ipBandwidth =
                                    (if uptime > 0 \<and> 0 <s BytesSent stats
                                     then float64_of_int64 (BytesSent stats * 8) / (uptime * 1000000)
                                     else 0)
                              in Some \<lparr>BytesSent = BytesSent stats,
                                       PacketsSent = PacketsSent stats,
                                       BandwidthMbps = ipBandwidth,
                                       LastActive = LastActive stats\<rparr>);
                 reportData =
                   \<lparr>Timestamp_old = now_stamp e,
                    TotalStats_old = \<lparr>BytesSent = bytesSent st,
                                      PacketsSent = packetsSent st,
                                      BandwidthMbps = totalBandwidth,
                                      UptimeSeconds = uptime\<rparr>,
                    SourceIPStats_old = sourceIPStats,
                    TargetStats_old = targetStats st,
                    SystemStats_old = systemStats\<rparr>
             in Inr \<lparr>report_old = reportData,
                     trace_old =
                       [StatsRLock, ReadMemStats, Marshal] @
                       (if \<not> marshal_ok e then [Log Error MsgMarshalFailed]
                        else
                          (if reportURL_old r \<noteq> [] then sendToRemote_old r (http e) else []) @
                          [Log Info MsgReportHeader,
                           Log Info (MsgTotals (BytesSent (TotalStats_old reportData))
                             (PacketsSent (TotalStats_old reportData))
                             (BandwidthMbps (TotalStats_old reportData))
                             (UptimeSeconds (TotalStats_old reportData)))] @
                          source_lines sourceIPStats (range_order e) @
                          [Log Info (MsgSystemOld (CPUCount_old systemStats)
                             (MemoryUsageMB_old systemStats) (MemoryTotalMB_old systemStats)
                             (GoroutineCount_old systemStats) (GCCount_old systemStats))]) @
                       [StatsRUnlock]\<rparr>)"

section \<open>Reading a trace\<close>

text \<open>
  \<open>held h es\<close> are the events of \<open>es\<close> that happen while the read lock of the counter
  store is held, \<open>h\<close> telling whether it is held at the start. \<open>posts es\<close> is the number
  of HTTP requests in \<open>es\<close>, \<open>info_lines es\<close> are its log lines at level \<open>Info\<close>.
\<close>

fun held :: "bool \<Rightarrow> event list \<Rightarrow> event list" where
  "held h [] = []"
| "held h (StatsRLock # es) = held True es"
| "held h (StatsRUnlock # es) = held False es"
| "held h (ev # es) = (if h then ev # held h es else held h es)"

fun is_post :: "event \<Rightarrow> bool" where
  "is_post (HttpPost url) = True"
| "is_post ev = False"

definition posts :: "event list \<Rightarrow> nat" where
  "posts es = length (filter is_post es)"

fun is_info :: "event \<Rightarrow> bool" where
  "is_info (Log Info m) = True"
| "is_info ev = False"

definition info_lines :: "event list \<Rightarrow> event list" where
  "info_lines es = filter is_info es"

text \<open>The events of a tick between the two lock operations.\<close>

definition tick_body ::
  "Reporter \<Rightarrow> Stats \<Rightarrow> tick_env \<Rightarrow> tick_result \<Rightarrow> event list \<Rightarrow> event list" where
  "tick_body r st e res sys_events =
     sys_events @ [Marshal] @
       (if \<not> marshal_ok e then [Log Error MsgMarshalFailed]
        else
          (if reportURL r \<noteq> [] then sendToRemote r (http e) else []) @
          [Log Info MsgReportHeader,
           Log Info (MsgTotals (BytesSent (TotalStats (report res)))
             (PacketsSent (TotalStats (report res)))
             (BandwidthMbps (TotalStats (report res)))
             (UptimeSeconds (TotalStats (report res))))] @
          source_lines (SourceIPStats (report res)) (range_order e) @
          [Log Info (MsgSystem (CPUUsage (SystemStats (report res)))
             (MemoryUsage (SystemStats (report res)))
             (MemoryUsageMB (SystemStats (report res)))
             (MemoryTotalMB (SystemStats (report res)))
             (GoroutineCount (SystemStats (report res)))
             (GCCount (SystemStats (report res))))])"

section \<open>Example inputs\<close>

text \<open>
  A reporter created at instant 0 with an interval of 20 seconds and a destination, a
  counter store with one source, two states of the Go runtime that differ in the number
  of goroutines and of collections, and the environments of the ticks at 20 and at 40
  seconds; the collector answers the first with status 500.
\<close>

definition ex_config :: Report where
  "ex_config = \<lparr>Interval = 20, URL = ''http://collector/report''\<rparr>"

definition ex_reporter :: Reporter where
  "ex_reporter = NewReporter ex_config ''10.0.0.1'' 0"

definition ex_stats :: Stats where
  "ex_stats =
     \<lparr>bytesSent = 125000, packetsSent = 100,
      sourceIPStats = [''10.0.0.2'' \<mapsto>
        \<lparr>BytesSent = 125000, PacketsSent = 100, BandwidthMbps = 0, LastActive = 0\<rparr>],
      targetStats = Map.empty\<rparr>"

definition ex_runtime :: Runtime where
  "ex_runtime =
     \<lparr>memStats = \<lparr>Alloc = 1048576, Sys = 4194304, NumGC = 3,
                   PauseNs = (replicate 256 0)[2 := 1500000]\<rparr>,
      NumCPU = 4, NumGoroutine = 8\<rparr>"

definition ex_runtime0 :: Runtime where
  "ex_runtime0 =
     \<lparr>memStats = \<lparr>Alloc = 1048576, Sys = 4194304, NumGC = 0, PauseNs = replicate 256 0\<rparr>,
      NumCPU = 4, NumGoroutine = 8\<rparr>"

definition ex_runtime' :: Runtime where
  "ex_runtime' =
     \<lparr>memStats = \<lparr>Alloc = 2097152, Sys = 4194304, NumGC = 5,
                   PauseNs = (replicate 256 0)[2 := 1500000, 4 := 2500000]\<rparr>,
      NumCPU = 4, NumGoroutine = 12\<rparr>"

text \<open>The samples that \<open>collectSystemStats\<close> computes from these two states.\<close>

definition ex_sample :: SystemStats where
  "ex_sample =
     \<lparr>CPUUsage = 20, MemoryUsage = 25, CPUCount = 4, MemoryUsageMB = 1, MemoryTotalMB = 4,
      GoroutineCount = 8, GCCount = 3, GCPauseMs = 3 / 2\<rparr>"

definition ex_sample' :: SystemStats where
  "ex_sample' =
     \<lparr>CPUUsage = 30, MemoryUsage = 50, CPUCount = 4, MemoryUsageMB = 2, MemoryTotalMB = 4,
      GoroutineCount = 12, GCCount = 5, GCPauseMs = 5 / 2\<rparr>"

text \<open>The reporter after its first tick, at 20 seconds, has taken the first sample.\<close>

definition ex_cached :: Reporter where
  "ex_cached = ex_reporter\<lparr>lastCPUTime := 20000000000, lastCPUStats := ex_sample\<rparr>"

text \<open>A reporter with no destination, and a counter store that has sent \<open>2 ^ 60\<close> bytes.\<close>

definition ex_local :: Reporter where
  "ex_local = NewReporter \<lparr>Interval = 20, URL = []\<rparr> ''10.0.0.1'' 0"

definition ex_stats_big :: Stats where
  "ex_stats_big =
     \<lparr>bytesSent = 1152921504606846976, packetsSent = 100,
      sourceIPStats = [''10.0.0.2'' \<mapsto>
        \<lparr>BytesSent = 1152921504606846976, PacketsSent = 100, BandwidthMbps = 0,
         LastActive = 0\<rparr>],
      targetStats = Map.empty\<rparr>"

definition ex_env :: tick_env where
  "ex_env =
     \<lparr>now_uptime = 20000000000, now_cache = 20000000000, now_store = 20000000000,
      now_stamp = 20000000000, runtime = ex_runtime, marshal_ok = True,
      http = Response 500, range_order = [''10.0.0.2'']\<rparr>"

definition ex_env' :: tick_env where
  "ex_env' =
     \<lparr>now_uptime = 40000000000, now_cache = 40000000000, now_store = 40000000000,
      now_stamp = 40000000000, runtime = ex_runtime', marshal_ok = True,
      http = Response 200, range_order = [''10.0.0.2'']\<rparr>"

text \<open>
  A counter store whose source was last active in the year 10000, an instant that
  \<open>json.MarshalIndent\<close> does not encode, and the environment of the tick at 20 seconds in
  which the encoding fails.
\<close>

definition ex_stats_far :: Stats where
  "ex_stats_far =
     \<lparr>bytesSent = 125000, packetsSent = 100,
      sourceIPStats = [''10.0.0.2'' \<mapsto>
        \<lparr>BytesSent = 125000, PacketsSent = 100, BandwidthMbps = 0,
         LastActive = 253402300800000000000\<rparr>],
      targetStats = Map.empty\<rparr>"

definition ex_env_far :: tick_env where
  "ex_env_far = ex_env\<lparr>marshal_ok := False\<rparr>"


section \<open>Arithmetic of the clock and of the counters\<close>

lemma sint_int64_of_int:
  assumes "- (2 ^ 63) \<le> x" and "x < 2 ^ 63"
  shows "sint (word_of_int x :: int64) = x"
  using assms by (simp add: sint_sbintrunc' signed_take_bit_int_eq_self)

lemma sint_Since:
  "sint (Since now t) = max (- (2 ^ 63)) (min (2 ^ 63 - 1) (now - t))"
proof -
  consider "now - t < - (2 ^ 63)" | "2 ^ 63 - 1 < now - t"
    | "- (2 ^ 63) \<le> now - t" "now - t < 2 ^ 63"
    by linarith
  then show ?thesis
  proof cases
    case 1
    then show ?thesis by (simp add: Since_def)
  next
    case 2
    then show ?thesis by (simp add: Since_def)
  next
    case 3
    then have "sint (word_of_int (now - t) :: int64) = now - t"
      by (rule sint_int64_of_int)
    with 3 show ?thesis by (simp add: Since_def del: of_int_diff)
  qed
qed

text \<open>The saturation does not change the two tests that the reporter makes.\<close>

lemma Since_less_30s: "Since now t <s 30 * Second \<longleftrightarrow> now - t < 30000000000"
  by (simp add: word_sless_alt sint_Since Second_def max_def min_def)

lemma Seconds_Since_pos: "0 < Seconds (Since now t) \<longleftrightarrow> t < now"
  by (simp add: Seconds_def sint_Since max_def min_def)

text \<open>
  \<open>NumGC + 255\<close> may wrap around at \<open>2 ^ 32\<close>, a multiple of 256, so the slot is that of
  \<open>NumGC - 1\<close>.
\<close>

lemma gc_slot:
  fixes n :: uint32
  assumes "0 < n"
  shows "unat ((n + 255) mod 256) = (unat n - 1) mod 256"
proof -
  have n: "1 \<le> unat n" using assms by (simp add: word_less_nat_alt)
  then have eq: "unat n + 255 = unat n - 1 + 256" by arith
  have "unat ((n + 255) mod 256) = ((unat n + 255) mod 2 ^ 32) mod 256"
    by (simp add: unat_mod unat_word_ariths)
  also have "\<dots> = (unat n + 255) mod 256"
    by (rule mod_mod_cancel) simp
  also have "\<dots> = (unat n - 1) mod 256"
    unfolding eq by simp
  finally show ?thesis .
qed

text \<open>Below \<open>2 ^ 60\<close> bytes the product \<open>bytes * 8\<close> does not leave the range of \<open>int64\<close>.\<close>

lemma float64_of_int64_times8:
  fixes b :: int64
  assumes "0 \<le> sint b" "sint b < 2 ^ 60"
  shows "float64_of_int64 (b * 8) = real_of_int (sint b) * 8"
proof -
  have "sint (b * 8) = sint b * 8"
    using assms by (simp add: sint_word_mult signed_take_bit_int_eq_self)
  then show ?thesis by (simp add: float64_of_int64_def)
qed

section \<open>The configured interval\<close>

text \<open>
  As long as the product of the configured number of seconds and \<open>time.Second\<close> stays
  in the range of \<open>int64\<close>, a configured interval that is not positive gives the
  default of 10 minutes.
\<close>

lemma NewReporter_interval_default:
  assumes "- 9223372036 \<le> sint (Interval config)" and "sint (Interval config) \<le> 0"
  shows "interval (NewReporter config mip now) = 10 * Minute"
proof -
  have "sint (Interval config * Second) = sint (Interval config) * 1000000000"
    using assms by (simp add: Second_def sint_word_mult signed_take_bit_int_eq_self)
  with assms show ?thesis
    by (simp add: NewReporter_def Let_def word_sle_eq)
qed

text \<open>
  Claim C7: a reporter constructed with a configured interval that is not positive has
  the default interval of 10 minutes. \<open>NewReporter\<close> tests the sign after it has
  multiplied by \<open>time.Second\<close>, and the product wraps around: for a configured interval
  of \<open>-9223372037\<close> seconds the product is the positive duration
  \<open>9223372036709551616\<close> nanoseconds, which the test lets through, so the interval of
  this reporter is not the default.
\<close>

theorem NewReporter_interval_overflow:
  "sint (Interval \<lparr>Interval = - 9223372037, URL = []\<rparr>) \<le> 0 \<and>
   sint (interval (NewReporter \<lparr>Interval = - 9223372037, URL = []\<rparr> ''10.0.0.1'' 0))
     = 9223372036709551616 \<and>
   interval (NewReporter \<lparr>Interval = - 9223372037, URL = []\<rparr> ''10.0.0.1'' 0) \<noteq> 10 * Minute"
  by (simp add: NewReporter_def Second_def Minute_def Let_def word_sle_eq)

section \<open>The system sampler\<close>

text \<open>
  The two paths of \<open>collectSystemStats\<close>. Within 30 seconds of the cache time it
  returns the cached sample and takes only the read lock of the cache; otherwise it
  computes a sample and writes it, with the time of the write, between \<open>CacheLock\<close> and
  \<open>CacheUnlock\<close>. With the 256 slots of \<open>PauseNs\<close> it always returns.
\<close>

lemma collectSystemStats_cached:
  assumes "now_check - lastCPUTime r < 30000000000"
  shows "collectSystemStats r now_check now_upd rt =
    Inr (lastCPUStats r, r, [CacheRLock, CacheRUnlock])"
  using assms by (simp add: collectSystemStats_def Since_less_30s)

lemma collectSystemStats_fresh:
  assumes "30000000000 \<le> now_check - lastCPUTime r"
    and "length (PauseNs (memStats rt)) = 256"
  shows "\<exists>stats. collectSystemStats r now_check now_upd rt =
      Inr (stats, r\<lparr>lastCPUTime := now_upd, lastCPUStats := stats\<rparr>,
        [CacheRLock, CacheRUnlock, ReadMemStats, CacheLock, CacheWrite now_upd stats,
         CacheUnlock])"
proof -
  have "unat ((NumGC (memStats rt) + 255) mod 256) < 256"
    by (simp add: unat_mod)
  with assms show ?thesis
    by (simp add: collectSystemStats_def Since_less_30s Let_def index_PauseNs_def)
qed

lemma collectSystemStats_returns:
  assumes "length (PauseNs (memStats rt)) = 256"
  shows "\<exists>stats r' evs. collectSystemStats r now_check now_upd rt = Inr (stats, r', evs)"
proof (cases "now_check - lastCPUTime r < 30000000000")
  case True
  then show ?thesis by (simp add: collectSystemStats_cached)
next
  case False
  then have "30000000000 \<le> now_check - lastCPUTime r" by simp
  from collectSystemStats_fresh [OF this assms] show ?thesis by blast
qed

text \<open>
  The pause of the current version. On a fresh sample (the cache is 30 seconds old or
  older), a collection count of 0 gives a pause of 0, whatever the buffer holds, and a
  count of at least 1 gives the pause stored in slot \<open>(NumGC - 1) mod 256\<close> of the
  buffer, in milliseconds; that slot lies inside the 256 slots of the buffer, and the
  call returns a sample, it does not panic.
\<close>

lemma collectSystemStats_gc_pause:
  assumes "30000000000 \<le> now_check - lastCPUTime r"
  shows "(NumGC (memStats rt) = 0 \<longrightarrow>
           (\<exists>stats r' evs. collectSystemStats r now_check now_upd rt = Inr (stats, r', evs) \<and>
              GCCount stats = 0 \<and> GCPauseMs stats = 0)) \<and>
         (0 < NumGC (memStats rt) \<and> length (PauseNs (memStats rt)) = 256 \<longrightarrow>
           (unat (NumGC (memStats rt)) - 1) mod 256 < length (PauseNs (memStats rt)) \<and>
           (\<exists>stats r' evs. collectSystemStats r now_check now_upd rt = Inr (stats, r', evs) \<and>
              GCCount stats = NumGC (memStats rt) \<and>
              GCPauseMs stats =
                float64_of_uint64
                  (PauseNs (memStats rt) ! ((unat (NumGC (memStats rt)) - 1) mod 256))
                  / 1000000))"
proof (intro conjI impI)
  assume "NumGC (memStats rt) = 0"
  with assms
  show "\<exists>stats r' evs. collectSystemStats r now_check now_upd rt = Inr (stats, r', evs) \<and>
      GCCount stats = 0 \<and> GCPauseMs stats = 0"
    by (simp add: collectSystemStats_def Since_less_30s Let_def)
next
  assume "0 < NumGC (memStats rt) \<and> length (PauseNs (memStats rt)) = 256"
  then show "(unat (NumGC (memStats rt)) - 1) mod 256 < length (PauseNs (memStats rt))"
    by simp
next
  assume a: "0 < NumGC (memStats rt) \<and> length (PauseNs (memStats rt)) = 256"
  then have "unat ((NumGC (memStats rt) + 255) mod 256)
      = (unat (NumGC (memStats rt)) - 1) mod 256"
    by (simp add: gc_slot)
  with a assms
  show "\<exists>stats r' evs. collectSystemStats r now_check now_upd rt = Inr (stats, r', evs) \<and>
      GCCount stats = NumGC (memStats rt) \<and>
      GCPauseMs stats =
        float64_of_uint64 (PauseNs (memStats rt) ! ((unat (NumGC (memStats rt)) - 1) mod 256))
          / 1000000"
    by (simp add: collectSystemStats_def Since_less_30s Let_def index_PauseNs_def)
qed

lemma collectSystemStats_gc_pause_example:
  "30000000000 \<le> 20000000000 - lastCPUTime ex_reporter \<and>
   NumGC (memStats ex_runtime0) = 0 \<and>
   (\<exists>stats r' evs. collectSystemStats ex_reporter 20000000000 20000000000 ex_runtime0
        = Inr (stats, r', evs) \<and> GCCount stats = 0 \<and> GCPauseMs stats = 0) \<and>
   0 < NumGC (memStats ex_runtime) \<and> length (PauseNs (memStats ex_runtime)) = 256 \<and>
   (\<exists>stats r' evs. collectSystemStats ex_reporter 20000000000 20000000000 ex_runtime
        = Inr (stats, r', evs) \<and> GCCount stats = 3 \<and> GCPauseMs stats = 3 / 2)"
  using collectSystemStats_gc_pause [where r = ex_reporter and now_check = 20000000000
      and rt = ex_runtime0 and now_upd = 20000000000]
    collectSystemStats_gc_pause [where r = ex_reporter and now_check = 20000000000
      and rt = ex_runtime and now_upd = 20000000000]
  by (simp add: ex_reporter_def ex_runtime_def ex_runtime0_def NewReporter_def zero_Time_def
      float64_of_uint64_def Let_def)

text \<open>
  A sample served from the cache is one that an earlier call computed, or the zero
  sample of a new reporter: in the cache and in every sample returned, a collection
  count of 0 goes with a pause of 0.
\<close>

lemma NewReporter_gc_consistent:
  "GCCount (lastCPUStats (NewReporter config mip now)) = 0 \<and>
   GCPauseMs (lastCPUStats (NewReporter config mip now)) = 0"
  by (simp add: NewReporter_def Let_def)

lemma collectSystemStats_gc_consistent:
  assumes "GCCount (lastCPUStats r) = 0 \<longrightarrow> GCPauseMs (lastCPUStats r) = 0"
    and "collectSystemStats r now_check now_upd rt = Inr (stats, r', evs)"
  shows "(GCCount stats = 0 \<longrightarrow> GCPauseMs stats = 0) \<and>
         (GCCount (lastCPUStats r') = 0 \<longrightarrow> GCPauseMs (lastCPUStats r') = 0)"
  using assms
  by (auto simp: collectSystemStats_def Let_def word_neq_0_conv split: if_splits sum.splits)

text \<open>
  The earlier version of \<open>collectSystemStats\<close> has no guard and reads the slot
  \<open>NumGC mod 256\<close>, the slot after the one of the last collection.
\<close>

lemma collectSystemStats_old_slot:
  assumes "length (PauseNs (memStats rt)) = 256"
  shows "\<exists>stats. collectSystemStats_old rt = Inr stats \<and>
     GCCount_old stats = NumGC (memStats rt) \<and>
     GCPauseMs_old stats =
       float64_of_uint64 (PauseNs (memStats rt) ! (unat (NumGC (memStats rt)) mod 256))
         / 1000000"
proof -
  have "unat (NumGC (memStats rt) mod 256) = unat (NumGC (memStats rt)) mod 256"
    by (simp add: unat_mod)
  with assms show ?thesis
    by (simp add: collectSystemStats_old_def index_PauseNs_def Let_def)
qed

text \<open>
  Claim C2: the sampler reports a pause of 0 when the collection count is 0, and for a
  count of at least 1 the pause stored in slot \<open>(NumGC - 1) mod 256\<close> of the buffer,
  never reading a slot that is out of bounds or not yet written. The current version
  does so, by the lemmas above. The earlier version, which the repository also holds,
  does not: after 3 collections, with the last pause of 1.5 milliseconds in slot 2, it
  reads slot 3, which no collection has written yet, and reports a pause of 0.
\<close>

theorem collectSystemStats_old_wrong_slot:
  "NumGC (memStats ex_runtime) = 3 \<and>
   float64_of_uint64 (PauseNs (memStats ex_runtime) ! ((3 - 1) mod 256)) / 1000000 = 3 / 2 \<and>
   collectSystemStats_old ex_runtime =
     Inr \<lparr>CPUCount_old = 4, MemoryUsageMB_old = 1, MemoryTotalMB_old = 4,
          GoroutineCount_old = 8, GCCount_old = 3, GCPauseMs_old = 0\<rparr>"
  by (simp add: collectSystemStats_old_def index_PauseNs_def ex_runtime_def Let_def
      float64_of_uint64_def)

text \<open>
  Claim C9: on a fresh sample the CPU usage estimate is the number of goroutines
  divided by the number of cores, times 10, clamped into the range from 0 to 100. The
  number of cores that the runtime reports is positive.
\<close>

theorem collectSystemStats_cpu_usage:
  assumes "30000000000 \<le> now_check - lastCPUTime r"
    and "length (PauseNs (memStats rt)) = 256"
    and "0 < NumCPU rt"
  shows "\<exists>stats r' evs. collectSystemStats r now_check now_upd rt = Inr (stats, r', evs) \<and>
     CPUUsage stats =
       max 0 (min 100 (real_of_int (NumGoroutine rt) / real_of_int (NumCPU rt) * 10))"
proof -
  have "unat ((NumGC (memStats rt) + 255) mod 256) < 256"
    by (simp add: unat_mod)
  with assms show ?thesis
    by (simp add: collectSystemStats_def Since_less_30s Let_def index_PauseNs_def
        float64_of_int_def max_def min_def)
qed

theorem collectSystemStats_cpu_usage_witness:
  "30000000000 \<le> 20000000000 - lastCPUTime ex_reporter \<and>
   length (PauseNs (memStats ex_runtime)) = 256 \<and> 0 < NumCPU ex_runtime \<and>
   (\<exists>stats r' evs. collectSystemStats ex_reporter 20000000000 20000000000 ex_runtime
        = Inr (stats, r', evs) \<and> CPUUsage stats = 20)"
  using collectSystemStats_cpu_usage [where r = ex_reporter and now_check = 20000000000
      and rt = ex_runtime and now_upd = 20000000000]
  by (simp add: ex_reporter_def ex_runtime_def NewReporter_def zero_Time_def Let_def)

section \<open>The cache of the sampler\<close>

text \<open>
  Claim C3, as it is stated, fails: two calls less than 30 seconds apart need not return
  the same sample. With an interval of 20 seconds the reporter takes its first sample
  at 20 seconds. The call at 40 seconds is served from the cache; the call at 60
  seconds, 20 seconds after that call but 40 seconds after the cache was written,
  computes a new sample, and with 12 goroutines instead of 8 the new sample differs.
\<close>

theorem collectSystemStats_not_identical:
  "collectSystemStats ex_reporter 20000000000 20000000000 ex_runtime =
     Inr (ex_sample, ex_cached,
       [CacheRLock, CacheRUnlock, ReadMemStats, CacheLock,
        CacheWrite 20000000000 ex_sample, CacheUnlock]) \<and>
   collectSystemStats ex_cached 40000000000 40000000000 ex_runtime' =
     Inr (ex_sample, ex_cached, [CacheRLock, CacheRUnlock]) \<and>
   collectSystemStats ex_cached 60000000000 60000000000 ex_runtime' =
     Inr (ex_sample', ex_cached\<lparr>lastCPUTime := 60000000000, lastCPUStats := ex_sample'\<rparr>,
       [CacheRLock, CacheRUnlock, ReadMemStats, CacheLock,
        CacheWrite 60000000000 ex_sample', CacheUnlock]) \<and>
   (60000000000 :: Time) - 40000000000 < 30000000000 \<and>
   ex_sample \<noteq> ex_sample'"
  by (simp add: collectSystemStats_def index_PauseNs_def Let_def Since_less_30s
      ex_reporter_def ex_config_def ex_cached_def ex_sample_def ex_sample'_def
      ex_runtime_def ex_runtime'_def NewReporter_def zero_Time_def
      float64_of_uint64_def float64_of_int_def)

text \<open>
  Claim C3, amended: the age of the cache is counted from the time of the last
  recomputation. A call less than 30 seconds after that time returns the cached sample
  and leaves the reporter as it is, taking only the read lock of the cache. A call 30
  seconds or more after it recomputes the sample from what the runtime reports at that
  call (the numbers of cores and of goroutines and the usage estimate from them, the
  memory figures from \<open>Alloc\<close> and \<open>Sys\<close>, the collection count and the pause of the
  last collection) and writes the sample and the time of the write to the cache between
  \<open>CacheLock\<close> and \<open>CacheUnlock\<close>, the lock of the sampler; every call less than 30
  seconds after that write returns this very sample, whatever the runtime reports by
  then. The runtime reports at least one core and a positive \<open>Sys\<close>.
\<close>

theorem collectSystemStats_ttl:
  "(now_check - lastCPUTime r < 30000000000 \<longrightarrow>
      collectSystemStats r now_check now_upd rt =
        Inr (lastCPUStats r, r, [CacheRLock, CacheRUnlock])) \<and>
   (30000000000 \<le> now_check - lastCPUTime r \<and> length (PauseNs (memStats rt)) = 256 \<and>
    0 < NumCPU rt \<and> 0 < Sys (memStats rt) \<longrightarrow>
      (\<exists>stats. collectSystemStats r now_check now_upd rt =
         Inr (stats, r\<lparr>lastCPUTime := now_upd, lastCPUStats := stats\<rparr>,
           [CacheRLock, CacheRUnlock, ReadMemStats, CacheLock, CacheWrite now_upd stats,
            CacheUnlock]) \<and>
         CPUCount stats = NumCPU rt \<and>
         GoroutineCount stats = NumGoroutine rt \<and>
         CPUUsage stats =
           max 0 (min 100 (float64_of_int (NumGoroutine rt) / float64_of_int (NumCPU rt) * 10)) \<and>
         MemoryUsageMB stats = float64_of_uint64 (Alloc (memStats rt)) / 1024 / 1024 \<and>
         MemoryTotalMB stats = float64_of_uint64 (Sys (memStats rt)) / 1024 / 1024 \<and>
         MemoryUsage stats = MemoryUsageMB stats / MemoryTotalMB stats * 100 \<and>
         GCCount stats = NumGC (memStats rt) \<and>
         GCPauseMs stats =
           (if NumGC (memStats rt) = 0 then 0
            else float64_of_uint64
                   (PauseNs (memStats rt) ! ((unat (NumGC (memStats rt)) - 1) mod 256))
                   / 1000000) \<and>
         (\<forall>now_check' now_upd' rt'.
            now_check' - now_upd < 30000000000 \<longrightarrow>
            collectSystemStats (r\<lparr>lastCPUTime := now_upd, lastCPUStats := stats\<rparr>)
                now_check' now_upd' rt' =
              Inr (stats, r\<lparr>lastCPUTime := now_upd, lastCPUStats := stats\<rparr>,
                [CacheRLock, CacheRUnlock]))))"
proof (intro conjI impI)
  assume "now_check - lastCPUTime r < 30000000000"
  then show "collectSystemStats r now_check now_upd rt =
      Inr (lastCPUStats r, r, [CacheRLock, CacheRUnlock])"
    by (rule collectSystemStats_cached)
next
  assume a: "30000000000 \<le> now_check - lastCPUTime r \<and> length (PauseNs (memStats rt)) = 256 \<and>
    0 < NumCPU rt \<and> 0 < Sys (memStats rt)"
  let ?ms = "memStats rt"
  define stats where "stats =
     \<lparr>CPUUsage =
        max 0 (min 100 (float64_of_int (NumGoroutine rt) / float64_of_int (NumCPU rt) * 10)),
      MemoryUsage = float64_of_uint64 (Alloc ?ms) / 1024 / 1024
        / (float64_of_uint64 (Sys ?ms) / 1024 / 1024) * 100,
      CPUCount = NumCPU rt,
      MemoryUsageMB = float64_of_uint64 (Alloc ?ms) / 1024 / 1024,
      MemoryTotalMB = float64_of_uint64 (Sys ?ms) / 1024 / 1024,
      GoroutineCount = NumGoroutine rt,
      GCCount = NumGC ?ms,
      GCPauseMs =
        (if NumGC ?ms = 0 then 0
         else float64_of_uint64 (PauseNs ?ms ! ((unat (NumGC ?ms) - 1) mod 256)) / 1000000)\<rparr>"
  have slot: "unat ((NumGC ?ms + 255) mod 256) = (unat (NumGC ?ms) - 1) mod 256"
    if "0 < NumGC ?ms"
    using that by (rule gc_slot)
  have c: "collectSystemStats r now_check now_upd rt =
      Inr (stats, r\<lparr>lastCPUTime := now_upd, lastCPUStats := stats\<rparr>,
        [CacheRLock, CacheRUnlock, ReadMemStats, CacheLock, CacheWrite now_upd stats,
         CacheUnlock])"
  proof (cases "0 < NumGC ?ms")
    case True
    then have "NumGC ?ms \<noteq> 0" by auto
    with True a slot show ?thesis
      by (simp add: collectSystemStats_def Since_less_30s Let_def index_PauseNs_def stats_def
          max_def min_def)
  next
    case False
    then have "NumGC ?ms = 0" using word_neq_0_conv by blast
    with a show ?thesis
      by (simp add: collectSystemStats_def Since_less_30s Let_def stats_def max_def min_def)
  qed
  have f: "CPUCount stats = NumCPU rt" "GoroutineCount stats = NumGoroutine rt"
    "CPUUsage stats =
       max 0 (min 100 (float64_of_int (NumGoroutine rt) / float64_of_int (NumCPU rt) * 10))"
    "MemoryUsageMB stats = float64_of_uint64 (Alloc ?ms) / 1024 / 1024"
    "MemoryTotalMB stats = float64_of_uint64 (Sys ?ms) / 1024 / 1024"
    "MemoryUsage stats = MemoryUsageMB stats / MemoryTotalMB stats * 100"
    "GCCount stats = NumGC ?ms"
    "GCPauseMs stats =
       (if NumGC ?ms = 0 then 0
        else float64_of_uint64 (PauseNs ?ms ! ((unat (NumGC ?ms) - 1) mod 256)) / 1000000)"
    by (simp_all add: stats_def)
  have later: "\<forall>now_check' now_upd' rt'.
      now_check' - now_upd < 30000000000 \<longrightarrow>
      collectSystemStats (r\<lparr>lastCPUTime := now_upd, lastCPUStats := stats\<rparr>)
          now_check' now_upd' rt' =
        Inr (stats, r\<lparr>lastCPUTime := now_upd, lastCPUStats := stats\<rparr>,
          [CacheRLock, CacheRUnlock])"
    by (simp add: collectSystemStats_cached)
  from c f later
  show "\<exists>stats. collectSystemStats r now_check now_upd rt =
         Inr (stats, r\<lparr>lastCPUTime := now_upd, lastCPUStats := stats\<rparr>,
           [CacheRLock, CacheRUnlock, ReadMemStats, CacheLock, CacheWrite now_upd stats,
            CacheUnlock]) \<and>
         CPUCount stats = NumCPU rt \<and>
         GoroutineCount stats = NumGoroutine rt \<and>
         CPUUsage stats =
           max 0 (min 100 (float64_of_int (NumGoroutine rt) / float64_of_int (NumCPU rt) * 10)) \<and>
         MemoryUsageMB stats = float64_of_uint64 (Alloc (memStats rt)) / 1024 / 1024 \<and>
         MemoryTotalMB stats = float64_of_uint64 (Sys (memStats rt)) / 1024 / 1024 \<and>
         MemoryUsage stats = MemoryUsageMB stats / MemoryTotalMB stats * 100 \<and>
         GCCount stats = NumGC (memStats rt) \<and>
         GCPauseMs stats =
           (if NumGC (memStats rt) = 0 then 0
            else float64_of_uint64
                   (PauseNs (memStats rt) ! ((unat (NumGC (memStats rt)) - 1) mod 256))
                   / 1000000) \<and>
         (\<forall>now_check' now_upd' rt'.
            now_check' - now_upd < 30000000000 \<longrightarrow>
            collectSystemStats (r\<lparr>lastCPUTime := now_upd, lastCPUStats := stats\<rparr>)
                now_check' now_upd' rt' =
              Inr (stats, r\<lparr>lastCPUTime := now_upd, lastCPUStats := stats\<rparr>,
                [CacheRLock, CacheRUnlock]))"
    by (intro exI [of _ stats] conjI)
qed

theorem collectSystemStats_ttl_witness:
  "(40000000000 :: Time) - lastCPUTime ex_cached < 30000000000 \<and>
   collectSystemStats ex_cached 40000000000 40000000000 ex_runtime' =
     Inr (ex_sample, ex_cached, [CacheRLock, CacheRUnlock]) \<and>
   30000000000 \<le> 20000000000 - lastCPUTime ex_reporter \<and>
   length (PauseNs (memStats ex_runtime)) = 256 \<and>
   0 < NumCPU ex_runtime \<and> 0 < Sys (memStats ex_runtime) \<and>
   collectSystemStats ex_reporter 20000000000 20000000000 ex_runtime =
     Inr (ex_sample, ex_cached,
       [CacheRLock, CacheRUnlock, ReadMemStats, CacheLock,
        CacheWrite 20000000000 ex_sample, CacheUnlock]) \<and>
   collectSystemStats ex_cached 49999999999 49999999999 ex_runtime' =
     Inr (ex_sample, ex_cached, [CacheRLock, CacheRUnlock])"
proof -
  have h1: "(40000000000 :: Time) - lastCPUTime ex_cached < 30000000000"
    by (simp add: ex_cached_def)
  have h2: "30000000000 \<le> 20000000000 - lastCPUTime ex_reporter \<and>
      length (PauseNs (memStats ex_runtime)) = 256 \<and>
      0 < NumCPU ex_runtime \<and> 0 < Sys (memStats ex_runtime)"
    by (simp add: ex_reporter_def NewReporter_def zero_Time_def ex_runtime_def Let_def)
  have t1: "collectSystemStats ex_cached 40000000000 40000000000 ex_runtime' =
      Inr (lastCPUStats ex_cached, ex_cached, [CacheRLock, CacheRUnlock])"
    using collectSystemStats_ttl [where r = ex_cached and now_check = 40000000000
        and now_upd = 40000000000 and rt = ex_runtime'] h1 by blast
  obtain stats where
    t2: "collectSystemStats ex_reporter 20000000000 20000000000 ex_runtime =
      Inr (stats, ex_reporter\<lparr>lastCPUTime := 20000000000, lastCPUStats := stats\<rparr>,
        [CacheRLock, CacheRUnlock, ReadMemStats, CacheLock, CacheWrite 20000000000 stats,
         CacheUnlock])"
    and f: "CPUCount stats = NumCPU ex_runtime"
      "GoroutineCount stats = NumGoroutine ex_runtime"
      "CPUUsage stats = max 0 (min 100 (float64_of_int (NumGoroutine ex_runtime)
         / float64_of_int (NumCPU ex_runtime) * 10))"
      "MemoryUsageMB stats = float64_of_uint64 (Alloc (memStats ex_runtime)) / 1024 / 1024"
      "MemoryTotalMB stats = float64_of_uint64 (Sys (memStats ex_runtime)) / 1024 / 1024"
      "MemoryUsage stats = MemoryUsageMB stats / MemoryTotalMB stats * 100"
      "GCCount stats = NumGC (memStats ex_runtime)"
      "GCPauseMs stats =
         (if NumGC (memStats ex_runtime) = 0 then 0
          else float64_of_uint64 (PauseNs (memStats ex_runtime)
                 ! ((unat (NumGC (memStats ex_runtime)) - 1) mod 256)) / 1000000)"
    and t3: "\<forall>now_check' now_upd' rt'.
            now_check' - 20000000000 < 30000000000 \<longrightarrow>
            collectSystemStats (ex_reporter\<lparr>lastCPUTime := 20000000000, lastCPUStats := stats\<rparr>)
                now_check' now_upd' rt' =
              Inr (stats, ex_reporter\<lparr>lastCPUTime := 20000000000, lastCPUStats := stats\<rparr>,
                [CacheRLock, CacheRUnlock])"
    using collectSystemStats_ttl [where r = ex_reporter and now_check = 20000000000
        and now_upd = 20000000000 and rt = ex_runtime] h2 by blast
  have s: "stats = ex_sample"
    using f
    by (cases stats)
      (simp add: ex_sample_def ex_runtime_def float64_of_int_def float64_of_uint64_def)
  from t3 have t4: "collectSystemStats
        (ex_reporter\<lparr>lastCPUTime := 20000000000, lastCPUStats := stats\<rparr>)
          49999999999 49999999999 ex_runtime' =
        Inr (stats, ex_reporter\<lparr>lastCPUTime := 20000000000, lastCPUStats := stats\<rparr>,
          [CacheRLock, CacheRUnlock])"
    by simp
  from h1 h2 t1 t2 t4 show ?thesis
    by (simp add: s ex_cached_def)
qed

section \<open>The snapshot and its rates\<close>

text \<open>
  With the 256 slots of \<open>PauseNs\<close> a tick returns. The report holds the totals of the
  counter store and one entry for each entry of the per-source map, with the counters
  and the last-active time copied; the bandwidth is 0 unless the uptime is positive
  (and, for a source, unless its byte count is positive).
\<close>

lemma generateReport_returns:
  assumes "length (PauseNs (memStats (runtime e))) = 256"
  shows "\<exists>res. generateReport r st e = Inr res"
proof -
  from collectSystemStats_returns [OF assms]
  obtain stats r' evs where
    "collectSystemStats r (now_cache e) (now_store e) (runtime e) = Inr (stats, r', evs)"
    by blast
  then show ?thesis by (simp add: generateReport_def Let_def)
qed

lemma generateReport_totals:
  assumes "generateReport r st e = Inr res"
  shows "BytesSent (TotalStats (report res)) = bytesSent st"
    and "PacketsSent (TotalStats (report res)) = packetsSent st"
    and "UptimeSeconds (TotalStats (report res)) = Seconds (Since (now_uptime e) (startTime r))"
    and "BandwidthMbps (TotalStats (report res)) =
      (if startTime r < now_uptime e
       then float64_of_int64 (bytesSent st * 8)
              / (Seconds (Since (now_uptime e) (startTime r)) * 1000000)
       else 0)"
  using assms
  by (auto simp: generateReport_def Let_def Seconds_Since_pos split: sum.splits)

lemma generateReport_sources:
  assumes "generateReport r st e = Inr res"
  shows "SourceIPStats (report res) ip =
     (case sourceIPStats st ip of
        None \<Rightarrow> None
      | Some stats \<Rightarrow>
          Some \<lparr>BytesSent = BytesSent stats, PacketsSent = PacketsSent stats,
                BandwidthMbps =
                  (if startTime r < now_uptime e \<and> 0 <s BytesSent stats
                   then float64_of_int64 (BytesSent stats * 8)
                          / (Seconds (Since (now_uptime e) (startTime r)) * 1000000)
                   else 0),
                LastActive = LastActive stats\<rparr>)"
  using assms
  by (auto simp: generateReport_def Let_def Seconds_Since_pos split: sum.splits option.splits)

lemma total_bandwidth_in_range:
  assumes "generateReport r st e = Inr res"
    and "startTime r < now_uptime e"
    and "0 \<le> sint (bytesSent st)" and "sint (bytesSent st) < 2 ^ 60"
  shows "BandwidthMbps (TotalStats (report res)) =
     real_of_int (sint (bytesSent st)) * 8 / (UptimeSeconds (TotalStats (report res)) * 1000000)"
  using assms by (simp add: generateReport_totals float64_of_int64_times8)

lemma source_bandwidth_in_range:
  assumes "generateReport r st e = Inr res"
    and "startTime r < now_uptime e"
    and "sourceIPStats st ip = Some stats"
    and "0 \<le> sint (BytesSent stats)" and "sint (BytesSent stats) < 2 ^ 60"
  shows "\<exists>stats'. SourceIPStats (report res) ip = Some stats' \<and>
     BytesSent stats' = BytesSent stats \<and> PacketsSent stats' = PacketsSent stats \<and>
     LastActive stats' = LastActive stats \<and>
     BandwidthMbps stats' =
       real_of_int (sint (BytesSent stats)) * 8
         / (UptimeSeconds (TotalStats (report res)) * 1000000)"
proof (cases "0 <s BytesSent stats")
  case True
  with assms show ?thesis
    by (simp add: generateReport_sources generateReport_totals float64_of_int64_times8)
next
  case False
  with assms(4) have "sint (BytesSent stats) = 0"
    by (simp add: word_sless_alt)
  with False assms show ?thesis
    by (simp add: generateReport_sources generateReport_totals)
qed

lemma bandwidth_zero_without_uptime:
  assumes "generateReport r st e = Inr res"
    and "now_uptime e \<le> startTime r"
  shows "BandwidthMbps (TotalStats (report res)) = 0"
    and "SourceIPStats (report res) ip = Some stats' \<Longrightarrow> BandwidthMbps stats' = 0"
  using assms
  by (auto simp: generateReport_totals generateReport_sources split: option.splits)

lemma source_entries_kept:
  assumes "generateReport r st e = Inr res"
  shows "dom (SourceIPStats (report res)) = dom (sourceIPStats st)"
  using assms
  by (auto simp: generateReport_sources dom_def split: option.splits)

text \<open>
  Claim C1: with a positive uptime and a byte count that is not negative, the reported
  bandwidth is \<open>bytes * 8 / (uptime * 1e6)\<close>, for the totals and for each source; with
  no uptime it is 0; a source with 0 bytes keeps its entry, with bandwidth 0. The lemmas
  above show this for byte counts below \<open>2 ^ 60\<close>. The source multiplies by 8 in
  \<open>int64\<close>, before the conversion to \<open>float64\<close>: from \<open>2 ^ 60\<close> bytes on the product
  wraps around. With \<open>2 ^ 60\<close> bytes sent and an uptime of 20 seconds the reported
  bandwidth is negative, for the totals and for the source, where
  \<open>bytes * 8 / (uptime * 1e6)\<close> is the positive number of the last line.
\<close>

theorem generateReport_bandwidth_overflow:
  "\<not> isl (generateReport ex_reporter ex_stats_big ex_env) \<and>
   0 \<le> sint (bytesSent ex_stats_big) \<and>
   UptimeSeconds (TotalStats (report (projr (generateReport ex_reporter ex_stats_big ex_env)))) = 20 \<and>
   BandwidthMbps (TotalStats (report (projr (generateReport ex_reporter ex_stats_big ex_env))))
     = - 461168601842.7387904 \<and>
   map_option BandwidthMbps
     (SourceIPStats (report (projr (generateReport ex_reporter ex_stats_big ex_env))) ''10.0.0.2'')
     = Some (- 461168601842.7387904) \<and>
   real_of_int (sint (bytesSent ex_stats_big)) * 8 / (20 * 1000000) = 461168601842.7387904"
  by (simp add: generateReport_def collectSystemStats_def index_PauseNs_def Let_def
      ex_reporter_def ex_config_def ex_stats_big_def ex_env_def ex_runtime_def NewReporter_def
      zero_Time_def Since_def Seconds_def Second_def Minute_def word_sle_eq word_sless_alt
      float64_of_int64_def float64_of_uint64_def float64_of_int_def)

section \<open>The events of a tick\<close>

text \<open>
  A tick returns the read lock of the counter store last; what it does before is the
  sample, the serialization and, if that succeeds, the delivery and the log lines.
\<close>

lemma held_body:
  assumes "StatsRLock \<notin> set body" and "StatsRUnlock \<notin> set body"
  shows "held True (body @ [StatsRUnlock]) = body"
  using assms
proof (induction body)
  case Nil
  then show ?case by simp
next
  case (Cons ev body)
  then show ?case by (cases ev) simp_all
qed

lemma source_lines_Log:
  assumes "ev \<in> set (source_lines m ks)"
  shows "\<exists>msg. ev = Log Info msg"
  using assms by (auto simp: source_lines_def split: option.splits)

lemma source_lines_mem:
  assumes "ip \<in> set ks" and "m ip = Some stats"
  shows "Log Info (MsgSource ip (BytesSent stats) (BandwidthMbps stats) (PacketsSent stats))
           \<in> set (source_lines m ks)"
  using assms by (force simp: source_lines_def)

lemma sendToRemote_events:
  assumes "ev \<in> set (sendToRemote r out)"
  shows "(\<exists>url. ev = HttpPost url) \<or> (\<exists>lvl msg. ev = Log lvl msg)"
  using assms by (auto simp: sendToRemote_def split: http_outcome.splits if_splits)

lemma collectSystemStats_events:
  assumes "collectSystemStats r now_check now_upd rt = Inr (stats, r', evs)"
  shows "StatsRLock \<notin> set evs \<and> StatsRUnlock \<notin> set evs \<and>
         (\<forall>url. HttpPost url \<notin> set evs) \<and> (\<forall>lvl msg. Log lvl msg \<notin> set evs)"
  using assms
  by (auto simp: collectSystemStats_def Let_def split: if_splits sum.splits)

lemma generateReport_trace:
  assumes "collectSystemStats r (now_cache e) (now_store e) (runtime e) = Inr (stats, r', evs)"
  shows "\<exists>res. generateReport r st e = Inr res \<and> reporter res = r' \<and>
     SystemStats (report res) = stats \<and>
     trace res = StatsRLock # tick_body r st e res evs @ [StatsRUnlock]"
  using assms by (simp add: generateReport_def tick_body_def Let_def)

text \<open>A tick changes nothing of the reporter but the cache of the sampler.\<close>

lemma collectSystemStats_frame:
  assumes "collectSystemStats r now_check now_upd rt = Inr (stats, r', evs)"
  shows "interval r' = interval r \<and> startTime r' = startTime r \<and>
     reportURL r' = reportURL r \<and> managementIP r' = managementIP r"
  using assms
  by (auto simp: collectSystemStats_def Let_def split: if_splits sum.splits)

lemma generateReport_frame:
  assumes "generateReport r st e = Inr res"
  shows "interval (reporter res) = interval r \<and> startTime (reporter res) = startTime r \<and>
     reportURL (reporter res) = reportURL r \<and> managementIP (reporter res) = managementIP r"
proof -
  from assms obtain stats r' evs where
    c: "collectSystemStats r (now_cache e) (now_store e) (runtime e) = Inr (stats, r', evs)"
    by (auto simp: generateReport_def Let_def split: sum.splits)
  from generateReport_trace [OF c, of st] assms have "reporter res = r'" by auto
  with collectSystemStats_frame [OF c] show ?thesis by simp
qed

section \<open>The read lock of the counter store\<close>

text \<open>
  Claim C4, as it is stated, fails: the read lock of the counter store is not released
  after the copy of the snapshot. In the first tick of the example the serialization,
  the HTTP request (answered with status 500) and every log line happen while the lock
  is held.
\<close>

theorem generateReport_holds_lock_example:
  "\<not> isl (generateReport ex_reporter ex_stats ex_env) \<and>
   held False (trace (projr (generateReport ex_reporter ex_stats ex_env))) =
     [CacheRLock, CacheRUnlock, ReadMemStats, CacheLock,
      CacheWrite 20000000000 ex_sample, CacheUnlock,
      Marshal,
      HttpPost ''http://collector/report'',
      Log Warn (MsgSendAbnormal ''http://collector/report'' 500),
      Log Info MsgReportHeader,
      Log Info (MsgTotals 125000 100 (1 / 20) 20),
      Log Info (MsgSource ''10.0.0.2'' 125000 (1 / 20) 100),
      Log Info (MsgSystem 20 25 1 4 8 3)]"
  by (simp add: generateReport_def collectSystemStats_def index_PauseNs_def sendToRemote_def
      source_lines_def Let_def Since_def Seconds_def Second_def Minute_def word_sle_eq
      word_sless_alt ex_reporter_def ex_config_def ex_stats_def ex_env_def ex_sample_def
      ex_runtime_def zero_Time_def NewReporter_def float64_of_int64_def
      float64_of_uint64_def float64_of_int_def)

text \<open>
  Claim C4, amended: in every tick the read lock of the counter store is taken once, as
  the first action of \<open>generateReport\<close>, and released once, as its last action (the
  deferred unlock); everything else the tick does happens while the lock is held: the
  copy of the snapshot, the system sample, the serialization, the log lines and, with a
  destination configured, the HTTP request.
\<close>

theorem generateReport_lock_span:
  assumes "length (PauseNs (memStats (runtime e))) = 256"
  shows "\<exists>res body. generateReport r st e = Inr res \<and>
     trace res = StatsRLock # body @ [StatsRUnlock] \<and>
     StatsRLock \<notin> set body \<and> StatsRUnlock \<notin> set body \<and>
     held False (trace res) = body \<and>
     Marshal \<in> set body \<and>
     (marshal_ok e \<longrightarrow> Log Info MsgReportHeader \<in> set body) \<and>
     (marshal_ok e \<and> reportURL r \<noteq> [] \<and> http e \<noteq> NewRequestError \<longrightarrow>
        HttpPost (reportURL r) \<in> set body)"
proof -
  from collectSystemStats_returns [OF assms]
  obtain stats r' evs where
    c: "collectSystemStats r (now_cache e) (now_store e) (runtime e) = Inr (stats, r', evs)"
    by blast
  from generateReport_trace [OF c]
  obtain res where g: "generateReport r st e = Inr res"
    and t: "trace res = StatsRLock # tick_body r st e res evs @ [StatsRUnlock]"
    by blast
  let ?body = "tick_body r st e res evs"
  have n1: "StatsRLock \<notin> set ?body"
    using collectSystemStats_events [OF c]
    by (auto simp: tick_body_def dest: sendToRemote_events source_lines_Log)
  have n2: "StatsRUnlock \<notin> set ?body"
    using collectSystemStats_events [OF c]
    by (auto simp: tick_body_def dest: sendToRemote_events source_lines_Log)
  have h: "held False (trace res) = ?body"
    using held_body [OF n1 n2] by (simp add: t)
  have m: "Marshal \<in> set ?body"
    by (simp add: tick_body_def)
  have l: "marshal_ok e \<longrightarrow> Log Info MsgReportHeader \<in> set ?body"
    by (simp add: tick_body_def)
  have p: "marshal_ok e \<and> reportURL r \<noteq> [] \<and> http e \<noteq> NewRequestError \<longrightarrow>
      HttpPost (reportURL r) \<in> set ?body"
    by (cases "http e") (simp_all add: tick_body_def sendToRemote_def)
  from g t n1 n2 h m l p show ?thesis by blast
qed

theorem generateReport_lock_span_witness:
  "length (PauseNs (memStats (runtime ex_env))) = 256 \<and>
   marshal_ok ex_env \<and> reportURL ex_reporter \<noteq> [] \<and> http ex_env \<noteq> NewRequestError \<and>
   (\<exists>res body. generateReport ex_reporter ex_stats ex_env = Inr res \<and>
      trace res = StatsRLock # body @ [StatsRUnlock] \<and>
      held False (trace res) = body \<and>
      Marshal \<in> set body \<and> Log Info MsgReportHeader \<in> set body \<and>
      HttpPost ''http://collector/report'' \<in> set body)"
proof -
  have h: "length (PauseNs (memStats (runtime ex_env))) = 256"
    by (simp add: ex_env_def ex_runtime_def)
  have k: "marshal_ok ex_env \<and> reportURL ex_reporter \<noteq> [] \<and> http ex_env \<noteq> NewRequestError \<and>
      reportURL ex_reporter = ''http://collector/report''"
    by (simp add: ex_env_def ex_reporter_def ex_config_def NewReporter_def Let_def)
  from generateReport_lock_span [OF h, of ex_reporter ex_stats] k h show ?thesis
    by auto
qed

section \<open>Delivery failures\<close>

lemma posts_append: "posts (xs @ ys) = posts xs + posts ys"
  by (simp add: posts_def)

lemma posts_none:
  assumes "\<forall>url. HttpPost url \<notin> set evs"
  shows "posts evs = 0"
proof -
  have "\<not> is_post ev" if "ev \<in> set evs" for ev
  proof (cases ev)
    case (HttpPost url)
    with that assms show ?thesis by blast
  qed simp_all
  then show ?thesis by (simp add: posts_def)
qed

lemma posts_source_lines: "posts (source_lines m ks) = 0"
  by (rule posts_none) (auto dest: source_lines_Log)

lemma generateReport_http_frame:
  assumes "generateReport r st e = Inr res"
  shows "\<exists>res'. generateReport r st (e\<lparr>http := out\<rparr>) = Inr res' \<and>
     reporter res' = reporter res \<and> report res' = report res"
  using assms
  by (auto simp: generateReport_def Let_def split: sum.splits)

text \<open>
  Claim C6: a delivery attempt that ends in a transport error or in a response whose
  status is not 2xx is not fatal. \<open>sendToRemote\<close> makes one request and writes one
  log line, an error for the transport failure and a warning for the status; the tick
  makes no second request, and it ends with the same report and the same reporter as a
  tick whose delivery succeeded, its events differing only in those of the delivery:
  nothing of the document is kept or queued. The next tick of the loop runs, from that
  reporter.
\<close>

theorem sendToRemote_failure_nonfatal:
  assumes out: "out = DoError \<or> (\<exists>code. out = Response code \<and> (code < 200 \<or> 300 \<le> code))"
    and e: "http e = out" "marshal_ok e" "reportURL r \<noteq> []"
    and len: "length (PauseNs (memStats (runtime e))) = 256"
    and len2: "length (PauseNs (memStats (runtime e2))) = 256"
  shows "\<exists>lvl msg res res_ok res2 pre post.
      sendToRemote r out = [HttpPost (reportURL r), Log lvl msg] \<and>
      (out = DoError \<longrightarrow> lvl = Error) \<and> (out \<noteq> DoError \<longrightarrow> lvl = Warn) \<and>
      generateReport r st e = Inr res \<and>
      generateReport r st (e\<lparr>http := Response 200\<rparr>) = Inr res_ok \<and>
      reporter res = reporter res_ok \<and> report res = report res_ok \<and>
      trace res = pre @ sendToRemote r out @ post \<and>
      trace res_ok = pre @ sendToRemote r (Response 200) @ post \<and>
      posts (trace res) = 1 \<and>
      generateReport (reporter res) st2 e2 = Inr res2 \<and>
      reportLoop r [TickerC st e, TickerC st2 e2] =
        Inr (reporter res2, trace res @ trace res2, Waiting)"
proof -
  from out obtain lvl msg where
    s: "sendToRemote r out = [HttpPost (reportURL r), Log lvl msg]"
    and l: "out = DoError \<longrightarrow> lvl = Error" "out \<noteq> DoError \<longrightarrow> lvl = Warn"
    by (auto simp: sendToRemote_def)
  from collectSystemStats_returns [OF len]
  obtain stats r' evs where
    c: "collectSystemStats r (now_cache e) (now_store e) (runtime e) = Inr (stats, r', evs)"
    by blast
  from generateReport_trace [OF c]
  obtain res where g: "generateReport r st e = Inr res"
    and t: "trace res = StatsRLock # tick_body r st e res evs @ [StatsRUnlock]"
    by blast
  from generateReport_http_frame [OF g]
  obtain res_ok where g_ok: "generateReport r st (e\<lparr>http := Response 200\<rparr>) = Inr res_ok"
    and f: "reporter res_ok = reporter res" "report res_ok = report res"
    by blast
  have c_ok: "collectSystemStats r (now_cache (e\<lparr>http := Response 200\<rparr>))
      (now_store (e\<lparr>http := Response 200\<rparr>)) (runtime (e\<lparr>http := Response 200\<rparr>))
      = Inr (stats, r', evs)"
    using c by simp
  from generateReport_trace [OF c_ok, of st] g_ok
  have t_ok: "trace res_ok =
      StatsRLock # tick_body r st (e\<lparr>http := Response 200\<rparr>) res_ok evs @ [StatsRUnlock]"
    by auto
  define pre where "pre = StatsRLock # evs @ [Marshal]"
  define post where "post =
     [Log Info MsgReportHeader,
      Log Info (MsgTotals (BytesSent (TotalStats (report res)))
        (PacketsSent (TotalStats (report res)))
        (BandwidthMbps (TotalStats (report res)))
        (UptimeSeconds (TotalStats (report res))))] @
     source_lines (SourceIPStats (report res)) (range_order e) @
     [Log Info (MsgSystem (CPUUsage (SystemStats (report res)))
        (MemoryUsage (SystemStats (report res)))
        (MemoryUsageMB (SystemStats (report res)))
        (MemoryTotalMB (SystemStats (report res)))
        (GoroutineCount (SystemStats (report res)))
        (GCCount (SystemStats (report res))))] @ [StatsRUnlock]"
  have tr: "trace res = pre @ sendToRemote r out @ post"
    using e by (simp add: t tick_body_def pre_def post_def)
  have tr_ok: "trace res_ok = pre @ sendToRemote r (Response 200) @ post"
    using e f by (simp add: t_ok tick_body_def pre_def post_def)
  have "posts evs = 0"
    using collectSystemStats_events [OF c] by (simp add: posts_none)
  then have p_pre: "posts pre = 0"
    by (simp add: pre_def posts_def)
  have p_src: "posts (source_lines (SourceIPStats (report res)) (range_order e)) = 0"
    by (rule posts_source_lines)
  then have p_post: "posts post = 0"
    by (simp add: post_def posts_def)
  have p_send: "posts (sendToRemote r out) = 1"
    by (simp add: s posts_def)
  have p: "posts (trace res) = 1"
    by (simp only: tr posts_append p_pre p_post p_send)
  from generateReport_returns [OF len2]
  obtain res2 where g2: "generateReport (reporter res) st2 e2 = Inr res2"
    by blast
  have loop: "reportLoop r [TickerC st e, TickerC st2 e2] =
      Inr (reporter res2, trace res @ trace res2, Waiting)"
    by (simp add: g g2)
  from s l g g_ok f tr tr_ok p g2 loop show ?thesis
    by (intro exI [of _ lvl] exI [of _ msg] exI [of _ res] exI [of _ res_ok] exI [of _ res2]
        exI [of _ pre] exI [of _ post]) simp
qed

theorem sendToRemote_failure_nonfatal_witness:
  "http ex_env = Response 500 \<and> marshal_ok ex_env \<and> reportURL ex_reporter \<noteq> [] \<and>
   length (PauseNs (memStats (runtime ex_env))) = 256 \<and>
   length (PauseNs (memStats (runtime ex_env'))) = 256 \<and>
   (\<exists>res res2.
      sendToRemote ex_reporter (Response 500) =
        [HttpPost ''http://collector/report'',
         Log Warn (MsgSendAbnormal ''http://collector/report'' 500)] \<and>
      generateReport ex_reporter ex_stats ex_env = Inr res \<and>
      posts (trace res) = 1 \<and>
      generateReport (reporter res) ex_stats ex_env' = Inr res2 \<and>
      reportLoop ex_reporter [TickerC ex_stats ex_env, TickerC ex_stats ex_env'] =
        Inr (reporter res2, trace res @ trace res2, Waiting))"
proof -
  have h: "http ex_env = Response 500" "marshal_ok ex_env" "reportURL ex_reporter \<noteq> []"
    "length (PauseNs (memStats (runtime ex_env))) = 256"
    "length (PauseNs (memStats (runtime ex_env'))) = 256"
    by (simp_all add: ex_env_def ex_env'_def ex_runtime_def ex_runtime'_def ex_reporter_def
        ex_config_def NewReporter_def Let_def)
  have o: "Response 500 = DoError \<or>
      (\<exists>code. Response 500 = Response code \<and> (code < 200 \<or> 300 \<le> code))"
    by simp
  have s: "sendToRemote ex_reporter (Response 500) =
        [HttpPost ''http://collector/report'',
         Log Warn (MsgSendAbnormal ''http://collector/report'' 500)]"
    by (simp add: sendToRemote_def ex_reporter_def ex_config_def NewReporter_def Let_def)
  from sendToRemote_failure_nonfatal [OF o h(1) h(2) h(3) h(4) h(5), of ex_stats ex_stats]
  obtain res res2 where
    "generateReport ex_reporter ex_stats ex_env = Inr res"
    "posts (trace res) = 1"
    "generateReport (reporter res) ex_stats ex_env' = Inr res2"
    "reportLoop ex_reporter [TickerC ex_stats ex_env, TickerC ex_stats ex_env'] =
        Inr (reporter res2, trace res @ trace res2, Waiting)"
    by blast
  with h s show ?thesis by blast
qed

section \<open>No destination\<close>

text \<open>
  A reporter with no destination keeps none, and its loop makes no HTTP request,
  however many ticks it runs.
\<close>

lemma generateReport_local_no_post:
  assumes "reportURL r = []" and "generateReport r st e = Inr res"
  shows "\<forall>url. HttpPost url \<notin> set (trace res)"
proof -
  from assms(2) obtain stats r' evs where
    c: "collectSystemStats r (now_cache e) (now_store e) (runtime e) = Inr (stats, r', evs)"
    by (auto simp: generateReport_def Let_def split: sum.splits)
  from generateReport_trace [OF c, of st] assms(2)
  have t: "trace res = StatsRLock # tick_body r st e res evs @ [StatsRUnlock]" by auto
  show ?thesis
    using collectSystemStats_events [OF c] assms(1)
    by (auto simp: t tick_body_def dest: source_lines_Log)
qed

lemma reportLoop_local_no_post:
  assumes "reportURL r = []" and "reportLoop r cs = Inr (r', evs, status)"
  shows "posts evs = 0 \<and> reportURL r' = []"
  using assms
proof (induction r cs arbitrary: r' evs status rule: reportLoop.induct)
  case (1 r)
  then show ?case by (simp add: posts_def)
next
  case (2 r cs)
  then show ?case by (simp add: posts_def)
next
  case (3 r st e cs)
  from "3.prems"(2) obtain res where g: "generateReport r st e = Inr res"
    by (auto split: sum.splits)
  with "3.prems"(2) obtain evs' where
    l: "reportLoop (reporter res) cs = Inr (r', evs', status)" and ev: "evs = trace res @ evs'"
    by (auto split: sum.splits)
  have u: "reportURL (reporter res) = []"
    using generateReport_frame [OF g] "3.prems"(1) by simp
  from "3.IH" [OF g u l] have "posts evs' = 0" "reportURL r' = []" by simp_all
  moreover have "posts (trace res) = 0"
    using generateReport_local_no_post [OF "3.prems"(1) g] by (rule posts_none)
  ultimately show ?case by (simp add: ev posts_append)
qed

text \<open>The log lines at level \<open>Info\<close> of the parts of a tick.\<close>

lemma info_lines_none:
  assumes "\<forall>lvl msg. Log lvl msg \<notin> set evs"
  shows "info_lines evs = []"
proof -
  have "\<not> is_info ev" if "ev \<in> set evs" for ev
  proof (cases ev)
    case (Log lvl msg)
    with that assms show ?thesis by blast
  qed simp_all
  then show ?thesis by (simp add: info_lines_def)
qed

lemma info_lines_source_lines: "info_lines (source_lines m ks) = source_lines m ks"
proof -
  have "is_info ev" if "ev \<in> set (source_lines m ks)" for ev
    using source_lines_Log [OF that] by auto
  then show ?thesis by (simp add: info_lines_def)
qed

lemma length_source_lines:
  assumes "set ks \<subseteq> dom m"
  shows "length (source_lines m ks) = length ks"
  using assms by (induction ks) (auto simp: source_lines_def)

text \<open>
  On the counter store whose source was last active in the year 10000 the encoding
  fails in every environment that agrees with the encoder.
\<close>

lemma marshal_fails_far:
  assumes "marshal_faithful ex_stats_far e"
  shows "\<not> marshal_ok e"
proof
  assume "marshal_ok e"
  with assms have "json_time_ok (LastActive stats)"
    if "sourceIPStats ex_stats_far ''10.0.0.2'' = Some stats" for stats
    using that by (simp add: marshal_faithful_def)
  then have "json_time_ok 253402300800000000000"
    by (simp add: ex_stats_far_def)
  then show False by (simp add: json_time_ok_def)
qed

text \<open>
  Claim C8, as it is stated, fails: with no destination the log lines are not written
  on every tick. When \<open>json.MarshalIndent\<close> fails, \<open>generateReport\<close> logs the error
  and returns before the log lines of the report. It fails on the counter store whose
  source was last active in the year 10000: the encoding of that \<open>time.Time\<close> returns
  an error.
\<close>

theorem generateReport_local_marshal_failure:
  "reportURL ex_local = [] \<and>
   sourceIPStats ex_stats_far ''10.0.0.2'' =
     Some \<lparr>BytesSent = 125000, PacketsSent = 100, BandwidthMbps = 0,
           LastActive = 253402300800000000000\<rparr> \<and>
   \<not> json_time_ok 253402300800000000000 \<and>
   marshal_faithful ex_stats_far ex_env_far \<and> \<not> marshal_ok ex_env_far \<and>
   \<not> isl (generateReport ex_local ex_stats_far ex_env_far) \<and>
   trace (projr (generateReport ex_local ex_stats_far ex_env_far)) =
     [StatsRLock, CacheRLock, CacheRUnlock, ReadMemStats, CacheLock,
      CacheWrite 20000000000 ex_sample, CacheUnlock, Marshal,
      Log Error MsgMarshalFailed, StatsRUnlock] \<and>
   info_lines (trace (projr (generateReport ex_local ex_stats_far ex_env_far))) = []"
  by (simp add: generateReport_def collectSystemStats_def index_PauseNs_def info_lines_def
      json_time_ok_def marshal_faithful_def Let_def Since_def Seconds_def Second_def Minute_def word_sle_eq
      word_sless_alt ex_local_def ex_stats_far_def ex_env_far_def ex_env_def ex_sample_def
      ex_runtime_def zero_Time_def NewReporter_def float64_of_int64_def
      float64_of_uint64_def float64_of_int_def)

text \<open>
  Claim C8, amended: with no destination configured a tick makes no HTTP request,
  whatever else happens, and leaves the reporter with no destination, so that the same
  holds of the next tick. A tick whose document serializes writes the log lines of the
  report and no other line at that level: the header, the totals, one line for each
  source of the counter store, and the system resources. A tick whose document does
  not serialize logs that error and returns with none of these lines. In Go \<open>range\<close>
  visits each key of the map once.
\<close>

theorem generateReport_no_destination:
  assumes "reportURL r = []"
    and "length (PauseNs (memStats (runtime e))) = 256"
    and "distinct (range_order e)"
    and "set (range_order e) = dom (sourceIPStats st)"
  shows "\<exists>res sys. generateReport r st e = Inr res \<and> reportURL (reporter res) = [] \<and>
     posts (trace res) = 0 \<and> (\<forall>url. HttpPost url \<notin> set (trace res)) \<and>
     (\<forall>lvl msg. Log lvl msg \<notin> set sys) \<and>
     (marshal_ok e \<longrightarrow>
        info_lines (trace res) =
          [Log Info MsgReportHeader,
           Log Info (MsgTotals (BytesSent (TotalStats (report res)))
             (PacketsSent (TotalStats (report res)))
             (BandwidthMbps (TotalStats (report res)))
             (UptimeSeconds (TotalStats (report res))))] @
          source_lines (SourceIPStats (report res)) (range_order e) @
          [Log Info (MsgSystem (CPUUsage (SystemStats (report res)))
             (MemoryUsage (SystemStats (report res)))
             (MemoryUsageMB (SystemStats (report res)))
             (MemoryTotalMB (SystemStats (report res)))
             (GoroutineCount (SystemStats (report res)))
             (GCCount (SystemStats (report res))))] \<and>
        length (source_lines (SourceIPStats (report res)) (range_order e))
          = card (dom (sourceIPStats st)) \<and>
        (\<forall>ip s. sourceIPStats st ip = Some s \<longrightarrow>
           (\<exists>stats. SourceIPStats (report res) ip = Some stats \<and>
              Log Info (MsgSource ip (BytesSent stats) (BandwidthMbps stats)
                (PacketsSent stats)) \<in> set (trace res)))) \<and>
     (\<not> marshal_ok e \<longrightarrow>
        trace res = StatsRLock # sys @ [Marshal, Log Error MsgMarshalFailed, StatsRUnlock] \<and>
        info_lines (trace res) = [])"
proof -
  from collectSystemStats_returns [OF assms(2)]
  obtain stats r' sys where
    c: "collectSystemStats r (now_cache e) (now_store e) (runtime e) = Inr (stats, r', sys)"
    by blast
  from generateReport_trace [OF c]
  obtain res where g: "generateReport r st e = Inr res"
    and t: "trace res = StatsRLock # tick_body r st e res sys @ [StatsRUnlock]"
    by blast
  have nl: "\<forall>lvl msg. Log lvl msg \<notin> set sys"
    using collectSystemStats_events [OF c] by blast
  then have il: "info_lines sys = []"
    by (rule info_lines_none)
  have u: "reportURL (reporter res) = []"
    using generateReport_frame [OF g] assms(1) by simp
  have np: "\<forall>url. HttpPost url \<notin> set (trace res)"
    by (rule generateReport_local_no_post [OF assms(1) g])
  then have p0: "posts (trace res) = 0"
    by (rule posts_none)
  have d: "dom (SourceIPStats (report res)) = dom (sourceIPStats st)"
    by (rule source_entries_kept [OF g])
  have ok: "info_lines (trace res) =
          [Log Info MsgReportHeader,
           Log Info (MsgTotals (BytesSent (TotalStats (report res)))
             (PacketsSent (TotalStats (report res)))
             (BandwidthMbps (TotalStats (report res)))
             (UptimeSeconds (TotalStats (report res))))] @
          source_lines (SourceIPStats (report res)) (range_order e) @
          [Log Info (MsgSystem (CPUUsage (SystemStats (report res)))
             (MemoryUsage (SystemStats (report res)))
             (MemoryUsageMB (SystemStats (report res)))
             (MemoryTotalMB (SystemStats (report res)))
             (GoroutineCount (SystemStats (report res)))
             (GCCount (SystemStats (report res))))]"
    if "marshal_ok e"
  proof -
    have "info_lines (trace res) =
        info_lines sys @
        [Log Info MsgReportHeader,
         Log Info (MsgTotals (BytesSent (TotalStats (report res)))
           (PacketsSent (TotalStats (report res)))
           (BandwidthMbps (TotalStats (report res)))
           (UptimeSeconds (TotalStats (report res))))] @
        info_lines (source_lines (SourceIPStats (report res)) (range_order e)) @
        [Log Info (MsgSystem (CPUUsage (SystemStats (report res)))
           (MemoryUsage (SystemStats (report res)))
           (MemoryUsageMB (SystemStats (report res)))
           (MemoryTotalMB (SystemStats (report res)))
           (GoroutineCount (SystemStats (report res)))
           (GCCount (SystemStats (report res))))]"
      using that assms(1) by (simp add: t tick_body_def info_lines_def)
    then show ?thesis
      by (simp only: il info_lines_source_lines append_Nil)
  qed
  have n: "length (source_lines (SourceIPStats (report res)) (range_order e))
      = card (dom (sourceIPStats st))"
  proof -
    have "length (source_lines (SourceIPStats (report res)) (range_order e))
        = length (range_order e)"
      by (rule length_source_lines) (simp add: d assms(4))
    also have "\<dots> = card (set (range_order e))"
      using assms(3) by (simp add: distinct_card)
    finally show ?thesis by (simp add: assms(4))
  qed
  have each: "\<exists>stats. SourceIPStats (report res) ip = Some stats \<and>
      Log Info (MsgSource ip (BytesSent stats) (BandwidthMbps stats) (PacketsSent stats))
        \<in> set (trace res)"
    if m: "marshal_ok e" and s: "sourceIPStats st ip = Some s" for ip s
  proof -
    from s have "ip \<in> dom (SourceIPStats (report res))" by (auto simp: d)
    then obtain stats where st': "SourceIPStats (report res) ip = Some stats" by blast
    from s assms(4) have k: "ip \<in> set (range_order e)" by auto
    have "Log Info (MsgSource ip (BytesSent stats) (BandwidthMbps stats) (PacketsSent stats))
        \<in> set (source_lines (SourceIPStats (report res)) (range_order e))"
      using k st' by (rule source_lines_mem)
    with m st' show ?thesis
      by (auto simp: t tick_body_def)
  qed
  have bad: "trace res = StatsRLock # sys @ [Marshal, Log Error MsgMarshalFailed, StatsRUnlock] \<and>
      info_lines (trace res) = []"
    if "\<not> marshal_ok e"
    using that il by (simp add: t tick_body_def info_lines_def)
  from g u p0 np nl ok n each bad show ?thesis
    by (intro exI [of _ res] exI [of _ sys]) blast
qed

theorem generateReport_no_destination_witness:
  "reportURL ex_local = [] \<and> length (PauseNs (memStats (runtime ex_env))) = 256 \<and>
   distinct (range_order ex_env) \<and> set (range_order ex_env) = dom (sourceIPStats ex_stats) \<and>
   marshal_ok ex_env \<and> \<not> marshal_ok ex_env_far \<and>
   (\<exists>res. generateReport ex_local ex_stats ex_env = Inr res \<and>
      posts (trace res) = 0 \<and>
      info_lines (trace res) =
        [Log Info MsgReportHeader,
         Log Info (MsgTotals 125000 100 (1 / 20) 20),
         Log Info (MsgSource ''10.0.0.2'' 125000 (1 / 20) 100),
         Log Info (MsgSystem 20 25 1 4 8 3)]) \<and>
   (\<exists>res. generateReport ex_local ex_stats ex_env_far = Inr res \<and>
      posts (trace res) = 0 \<and> info_lines (trace res) = [])"
proof -
  have h: "reportURL ex_local = []" "length (PauseNs (memStats (runtime ex_env))) = 256"
    "distinct (range_order ex_env)" "set (range_order ex_env) = dom (sourceIPStats ex_stats)"
    "marshal_ok ex_env"
    by (simp_all add: ex_local_def NewReporter_def Let_def ex_env_def ex_runtime_def
        ex_stats_def)
  have h': "length (PauseNs (memStats (runtime ex_env_far))) = 256"
    "distinct (range_order ex_env_far)"
    "set (range_order ex_env_far) = dom (sourceIPStats ex_stats)"
    "\<not> marshal_ok ex_env_far"
    by (simp_all add: ex_env_far_def ex_env_def ex_runtime_def ex_stats_def)
  from generateReport_no_destination [OF h(1) h(2) h(3) h(4)] h(5)
  obtain res where g: "generateReport ex_local ex_stats ex_env = Inr res"
    and p: "posts (trace res) = 0"
    and l: "info_lines (trace res) =
          [Log Info MsgReportHeader,
           Log Info (MsgTotals (BytesSent (TotalStats (report res)))
             (PacketsSent (TotalStats (report res)))
             (BandwidthMbps (TotalStats (report res)))
             (UptimeSeconds (TotalStats (report res))))] @
          source_lines (SourceIPStats (report res)) (range_order ex_env) @
          [Log Info (MsgSystem (CPUUsage (SystemStats (report res)))
             (MemoryUsage (SystemStats (report res)))
             (MemoryUsageMB (SystemStats (report res)))
             (MemoryTotalMB (SystemStats (report res)))
             (GoroutineCount (SystemStats (report res)))
             (GCCount (SystemStats (report res))))]"
    by blast
  have v: "generateReport ex_local ex_stats ex_env =
      Inr (projr (generateReport ex_local ex_stats ex_env))"
    using g by simp
  have r: "report res = report (projr (generateReport ex_local ex_stats ex_env))"
    using g by simp
  have l': "info_lines (trace res) =
        [Log Info MsgReportHeader,
         Log Info (MsgTotals 125000 100 (1 / 20) 20),
         Log Info (MsgSource ''10.0.0.2'' 125000 (1 / 20) 100),
         Log Info (MsgSystem 20 25 1 4 8 3)]"
    unfolding l r
    by (simp add: generateReport_def collectSystemStats_def index_PauseNs_def
        source_lines_def Let_def Since_def Seconds_def Second_def Minute_def word_sle_eq
        word_sless_alt ex_local_def ex_stats_def ex_env_def ex_runtime_def zero_Time_def
        NewReporter_def float64_of_int64_def float64_of_uint64_def float64_of_int_def)
  from generateReport_no_destination [OF h(1) h'(1) h'(2) h'(3)] h'(4)
  obtain res2 where g2: "generateReport ex_local ex_stats ex_env_far = Inr res2"
    and p2: "posts (trace res2) = 0" and l2: "info_lines (trace res2) = []"
    by blast
  from h h'(4) g p l' g2 p2 l2 show ?thesis by blast
qed

section \<open>The two versions of the report generator\<close>

text \<open>
  Claim C10: on the same counter store, with the same start time and the same reading
  of the clock (so with the same uptime), the earlier and the later version of
  \<open>generateReport\<close> both return, and their reports hold the same totals (bytes,
  packets, bandwidth, uptime) and the same per-source map (bytes, packets, bandwidth,
  last-active time of each source).
\<close>

theorem generateReport_versions_agree:
  assumes "startTime_old ro = startTime r"
    and "length (PauseNs (memStats (runtime e))) = 256"
  shows "\<exists>res_old res. generateReport_old ro st e = Inr res_old \<and>
     generateReport r st e = Inr res \<and>
     TotalStats_old (report_old res_old) = TotalStats (report res) \<and>
     SourceIPStats_old (report_old res_old) = SourceIPStats (report res)"
proof -
  from collectSystemStats_returns [OF assms(2)]
  obtain stats r' evs where
    c: "collectSystemStats r (now_cache e) (now_store e) (runtime e) = Inr (stats, r', evs)"
    by blast
  have "unat (NumGC (memStats (runtime e)) mod 256) < 256"
    by (simp add: unat_mod)
  with assms(2) obtain stats_old where
    c_old: "collectSystemStats_old (runtime e) = Inr stats_old"
    by (simp add: collectSystemStats_old_def index_PauseNs_def Let_def)
  from c c_old assms(1) show ?thesis
    by (simp add: generateReport_def generateReport_old_def Let_def)
qed

theorem generateReport_versions_agree_witness:
  "startTime_old (NewReporter_old ex_config 0) = startTime ex_reporter \<and>
   length (PauseNs (memStats (runtime ex_env))) = 256 \<and>
   (\<exists>res_old res. generateReport_old (NewReporter_old ex_config 0) ex_stats ex_env = Inr res_old \<and>
     generateReport ex_reporter ex_stats ex_env = Inr res \<and>
     TotalStats_old (report_old res_old) = TotalStats (report res) \<and>
     SourceIPStats_old (report_old res_old) = SourceIPStats (report res))"
proof -
  have h: "startTime_old (NewReporter_old ex_config 0) = startTime ex_reporter"
    "length (PauseNs (memStats (runtime ex_env))) = 256"
    by (simp_all add: NewReporter_old_def ex_reporter_def NewReporter_def Let_def ex_env_def
        ex_runtime_def)
  from generateReport_versions_agree [OF h, of ex_stats] h show ?thesis by blast
qed

end
